theory Spec2Isabelle
  imports Complex_Main
begin

section \<open>Multi-provider checkout orchestration of the merch store\<close>

text \<open>
  A shallow embedding of the checkout service (\<^verbatim>\<open>getQuote\<close>, \<^verbatim>\<open>createCheckout\<close>), of the
  order store it writes to, of the marketplace runtime that holds the provider gateways, and
  of the abandoned-draft cleanup job.

  Conventions of the embedding.
  \<^item> A JavaScript \<^verbatim>\<open>number\<close> that carries money or days is a \<^typ>\<open>real\<close>: sums,
    products and quotients are exact, the representation error of IEEE doubles is outside
    the model. The one operation that turns such an error into a different integer,
    \<^verbatim>\<open>Math.round(x * 100)\<close>, is not computed by the model: it is a parameter of the world
    (\<open>w_cents\<close>). A quantity (\<^verbatim>\<open>z.number().int()\<close>) is an \<^typ>\<open>int\<close>; the value of an
    integer column of the database is an \<^typ>\<open>int\<close>, a \<^verbatim>\<open>timestamp\<close> column holding whole
    seconds.
  \<^item> An optional field is an \<^typ>\<open>'a option\<close>. JavaScript truthiness of an optional string
    (\<^verbatim>\<open>x ? a : b\<close>, \<^verbatim>\<open>x || d\<close>, \<^verbatim>\<open>!x\<close>) is \<open>truthy\<close>: defined and not the empty string.
  \<^item> A \<^verbatim>\<open>Map\<close> or a plain object used as a dictionary is an association list in
    insertion order, which is the order in which \<^verbatim>\<open>entries()\<close> iterates.
  \<^item> A failed \<^verbatim>\<open>Effect\<close> is \<open>Inl\<close> of an \<open>error\<close>, one constructor per message of the
    source, with the interpolated parts as arguments.
  \<^item> A remote gateway is the function from its request to its answer, \<open>Inl\<close> of the
    message it throws or \<open>Inr\<close> of its response. Every request that is issued is appended
    to a log of gateway calls.
  \<^item> The relational database is an in-memory table. A lookup that finds no row is
    modelled; an I/O failure of the database itself is not.
\<close>

subsection \<open>JavaScript helpers\<close>

definition truthy :: "string option \<Rightarrow> bool" where
  "truthy s = (case s of None \<Rightarrow> False | Some v \<Rightarrow> v \<noteq> [])"

text \<open>\<^verbatim>\<open>xs[0]\<close> on an array: \<^verbatim>\<open>undefined\<close> when the array is empty.\<close>

definition first_elem :: "'a list \<Rightarrow> 'a option" where
  "first_elem xs = (case xs of [] \<Rightarrow> None | x # _ \<Rightarrow> Some x)"

text \<open>\<^verbatim>\<open>obj[k] = v\<close> on a dictionary: an existing key keeps its place, a new key goes last.\<close>

fun dict_set :: "string \<Rightarrow> 'v \<Rightarrow> (string \<times> 'v) list \<Rightarrow> (string \<times> 'v) list" where
  "dict_set k v [] = [(k, v)]"
| "dict_set k v ((k', v') # rest) =
     (if k' = k then (k', v) # rest else (k', v') # dict_set k v rest)"

subsection \<open>Catalog (src/api/src/schema.ts)\<close>

record design_file =
  df_placement :: string
  df_url :: string

text \<open>
  \<^verbatim>\<open>FulfillmentConfigSchema\<close>. Of the free-form \<^verbatim>\<open>providerData\<close> the two keys that
  \<^verbatim>\<open>mapToFulfillmentItems\<close> reads are kept.
\<close>

record fulfillment_config =
  fc_externalVariantId :: "string option"
  fc_externalProductId :: "string option"
  fc_designFiles :: "design_file list option"
  fc_catalogProductId :: "int option"
  fc_catalogVariantId :: "int option"

record product_variant =
  pv_id :: string
  pv_price :: real
  pv_currency :: string
  pv_fulfillmentConfig :: "fulfillment_config option"

record product =
  p_id :: string
  p_title :: string
  p_description :: "string option"
  p_price :: real
  p_currency :: string
  p_images :: "string list"
  p_variants :: "product_variant list"
  p_fulfillmentProvider :: string

text \<open>\<^verbatim>\<open>productStore.find\<close>: the product of an id, or \<^verbatim>\<open>null\<close>.\<close>

type_synonym catalog = "string \<Rightarrow> product option"

record quote_item_input =
  qi_productId :: string
  qi_variantId :: "string option"
  qi_quantity :: int

record shipping_address =
  sa_companyName :: "string option"
  sa_firstName :: string
  sa_lastName :: string
  sa_addressLine1 :: string
  sa_addressLine2 :: "string option"
  sa_city :: string
  sa_state :: string
  sa_postCode :: string
  sa_country :: string
  sa_email :: string
  sa_phone :: "string option"

subsection \<open>Fulfillment and payment gateways (src/unnamed/part_001, part_002; src/api/src/services/payment)\<close>

record fulfillment_address =
  fa_name :: string
  fa_company :: "string option"
  fa_address1 :: string
  fa_address2 :: "string option"
  fa_city :: string
  fa_stateCode :: string
  fa_countryCode :: string
  fa_zip :: string
  fa_phone :: "string option"
  fa_email :: string

record fulfillment_file =
  ff_url :: string
  ff_type :: string
  ff_placement :: string

record fulfillment_order_item =
  foi_externalVariantId :: "string option"
  foi_productId :: "int option"
  foi_variantId :: "int option"
  foi_quantity :: int
  foi_files :: "fulfillment_file list option"

record shipping_rate =
  sr_id :: string
  sr_name :: string
  sr_rate :: real
  sr_currency :: string
  sr_minDeliveryDays :: "real option"
  sr_maxDeliveryDays :: "real option"

record shipping_quote_input =
  sqi_recipient :: fulfillment_address
  sqi_items :: "fulfillment_order_item list"
  sqi_currency :: string

record fulfillment_order_input =
  foin_externalId :: string
  foin_recipient :: fulfillment_address
  foin_items :: "fulfillment_order_item list"
  foin_retailCurrency :: string

text \<open>
  The client of a fulfillment provider (\<^verbatim>\<open>FulfillmentContract\<close>). \<^verbatim>\<open>quoteOrder\<close> answers
  with its \<^verbatim>\<open>rates\<close> array, \<^verbatim>\<open>createOrder\<close> with the \<^verbatim>\<open>id\<close> of the draft; the other
  fields of the responses are not read by the callers. The caller reads a response without
  \<^verbatim>\<open>rates\<close> as the empty array (\<^verbatim>\<open>quoteResult.rates || []\<close>), which is the empty list
  here.
\<close>

record fulfillment_client =
  quoteOrder :: "shipping_quote_input \<Rightarrow> string + shipping_rate list"
  createOrder :: "fulfillment_order_input \<Rightarrow> string + string"
  cancelOrder :: "string \<Rightarrow> string + unit"

record payment_line_item =
  pli_name :: string
  pli_description :: "string option"
  pli_image :: "string option"
  pli_unitAmount :: int
  pli_quantity :: int

record checkout_session_input =
  csi_orderId :: string
  csi_amount :: int
  csi_currency :: string
  csi_items :: "payment_line_item list"
  csi_successUrl :: string
  csi_cancelUrl :: string
  csi_metadataDraftOrderIds :: "(string \<times> string) list"

record checkout_session_output =
  cso_sessionId :: string
  cso_url :: string

type_synonym payment_client = "checkout_session_input \<Rightarrow> string + checkout_session_output"

datatype gateway_call =
    QuoteOrderCall string shipping_quote_input
  | CreateOrderCall string fulfillment_order_input
  | CancelOrderCall string string
  | PaymentCheckoutCall string checkout_session_input

subsection \<open>Marketplace runtime (src/api/src/services/products.ts, from line 499)\<close>

record fulfillment_provider =
  fp_name :: string
  fp_client :: fulfillment_client

record payment_provider =
  pp_name :: string
  pp_client :: payment_client

record marketplace_runtime =
  providers :: "fulfillment_provider list"
  paymentProviders :: "payment_provider list"

text \<open>
  \<^verbatim>\<open>createMarketplaceRuntime\<close>. An argument is \<open>Some\<close> client when the provider is
  configured and its plugin initialised, \<open>None\<close> otherwise (not configured, or the
  initialisation threw and was logged). The source pushes printful, then gelato.
\<close>

definition createMarketplaceRuntime ::
  "fulfillment_client option \<Rightarrow> fulfillment_client option \<Rightarrow> payment_client option
    \<Rightarrow> marketplace_runtime" where
  "createMarketplaceRuntime printful gelato stripe =
     \<lparr>providers =
        (case printful of None \<Rightarrow> []
         | Some c \<Rightarrow> [\<lparr>fp_name = ''printful'', fp_client = c\<rparr>]) @
        (case gelato of None \<Rightarrow> []
         | Some c \<Rightarrow> [\<lparr>fp_name = ''gelato'', fp_client = c\<rparr>]),
      paymentProviders =
        (case stripe of None \<Rightarrow> []
         | Some c \<Rightarrow> [\<lparr>pp_name = ''stripe'', pp_client = c\<rparr>])\<rparr>"

definition getProvider :: "marketplace_runtime \<Rightarrow> string \<Rightarrow> fulfillment_provider option" where
  "getProvider rt name = find (\<lambda>p. fp_name p = name) (providers rt)"

definition getPaymentProvider :: "marketplace_runtime \<Rightarrow> string \<Rightarrow> payment_provider option" where
  "getPaymentProvider rt name = find (\<lambda>p. pp_name p = name) (paymentProviders rt)"

subsection \<open>Checkout service (src/api/src/services/fulfillment/gelato/service.ts, from line 561): shared helpers\<close>

datatype error =
    ProductNotFound string
  | ProviderNotConfigured string
  | QuoteFailed string string
  | NoShippingRates string
  | NoRateSelected string
  | DraftOrderFailed string string
  | PaymentNotConfigured
  | PaymentCheckoutFailed string
  | CreateOrderFailed string
  | UpdateCheckoutFailed string
  | UpdateDraftOrderIdsFailed string
  | UpdateStatusFailed string

record provider_item_group =
  pig_item :: quote_item_input
  pig_productId :: string
  pig_variantId :: "string option"
  pig_price :: real
  pig_currency :: string
  pig_fulfillmentConfig :: "fulfillment_config option"
  pig_productTitle :: string
  pig_productDescription :: "string option"
  pig_productImage :: "string option"
  pig_fulfillmentProvider :: string

definition buildRecipient :: "shipping_address \<Rightarrow> fulfillment_address" where
  "buildRecipient address =
     \<lparr>fa_name = sa_firstName address @ '' '' @ sa_lastName address,
      fa_company = sa_companyName address,
      fa_address1 = sa_addressLine1 address,
      fa_address2 = sa_addressLine2 address,
      fa_city = sa_city address,
      fa_stateCode = sa_state address,
      fa_countryCode = sa_country address,
      fa_zip = sa_postCode address,
      fa_phone = sa_phone address,
      fa_email = sa_email address\<rparr>"

definition mapToFulfillmentItem :: "provider_item_group \<Rightarrow> fulfillment_order_item" where
  "mapToFulfillmentItem pitem =
     (let config = pig_fulfillmentConfig pitem in
      \<lparr>foi_externalVariantId =
         (case config of None \<Rightarrow> None
          | Some c \<Rightarrow> if truthy (fc_externalVariantId c) then fc_externalVariantId c else None),
       foi_productId = (case config of None \<Rightarrow> None | Some c \<Rightarrow> fc_catalogProductId c),
       foi_variantId = (case config of None \<Rightarrow> None | Some c \<Rightarrow> fc_catalogVariantId c),
       foi_quantity = qi_quantity (pig_item pitem),
       foi_files =
         (case config of None \<Rightarrow> None
          | Some c \<Rightarrow>
              (case fc_designFiles c of None \<Rightarrow> None
               | Some dfs \<Rightarrow>
                   Some (map (\<lambda>df. \<lparr>ff_url = df_url df, ff_type = ''default'',
                                     ff_placement = df_placement df\<rparr>) dfs)))\<rparr>)"

definition mapToFulfillmentItems :: "provider_item_group list \<Rightarrow> fulfillment_order_item list" where
  "mapToFulfillmentItems providerItems = map mapToFulfillmentItem providerItems"

text \<open>
  The variant of a cart item:
  \<^verbatim>\<open>item.variantId ? product.variants.find(v => v.id === item.variantId) : product.variants[0]\<close>.
\<close>

definition selectVariant :: "product \<Rightarrow> quote_item_input \<Rightarrow> product_variant option" where
  "selectVariant product item =
     (if truthy (qi_variantId item)
      then find (\<lambda>v. Some (pv_id v) = qi_variantId item) (p_variants product)
      else first_elem (p_variants product))"

text \<open>\<^verbatim>\<open>product.fulfillmentProvider || 'manual'\<close>.\<close>

definition providerOf :: "product \<Rightarrow> string" where
  "providerOf product =
     (if p_fulfillmentProvider product \<noteq> [] then p_fulfillmentProvider product else ''manual'')"

text \<open>The entry that the first loop pushes into the bucket of the item's provider.\<close>

definition itemGroup :: "product \<Rightarrow> quote_item_input \<Rightarrow> provider_item_group" where
  "itemGroup product item =
     (let selectedVariant = selectVariant product item;
          unitPrice = (case selectedVariant of None \<Rightarrow> p_price product | Some v \<Rightarrow> pv_price v)
      in \<lparr>pig_item = item,
          pig_productId = p_id product,
          pig_variantId = map_option pv_id selectedVariant,
          pig_price = unitPrice,
          pig_currency =
            (case selectedVariant of None \<Rightarrow> p_currency product | Some v \<Rightarrow> pv_currency v),
          pig_fulfillmentConfig = Option.bind selectedVariant pv_fulfillmentConfig,
          pig_productTitle = p_title product,
          pig_productDescription = p_description product,
          pig_productImage = first_elem (p_images product),
          pig_fulfillmentProvider = p_fulfillmentProvider product\<rparr>)"

text \<open>
  \<^verbatim>\<open>if (!itemsByProvider.has(provider)) itemsByProvider.set(provider, []);\<close>
  \<^verbatim>\<open>itemsByProvider.get(provider)!.push(group)\<close>.
\<close>

fun bucket_push ::
  "string \<Rightarrow> 'a \<Rightarrow> (string \<times> 'a list) list \<Rightarrow> (string \<times> 'a list) list" where
  "bucket_push k v [] = [(k, [v])]"
| "bucket_push k v ((k', vs) # rest) =
     (if k' = k then (k', vs @ [v]) # rest else (k', vs) # bucket_push k v rest)"

type_synonym buckets = "(string \<times> provider_item_group list) list"

text \<open>
  The first loop of \<^verbatim>\<open>getQuote\<close> and of \<^verbatim>\<open>createCheckout\<close> (the two copies in the source are
  the same text): resolve every cart item, add it to the bucket of its provider, add its
  price to the running subtotal; the first unknown product ends the operation.
\<close>

fun resolveItems ::
  "catalog \<Rightarrow> quote_item_input list \<Rightarrow> buckets \<Rightarrow> real \<Rightarrow> error + (buckets \<times> real)" where
  "resolveItems productStore [] itemsByProvider totalSubtotal =
     Inr (itemsByProvider, totalSubtotal)"
| "resolveItems productStore (item # rest) itemsByProvider totalSubtotal =
     (case productStore (qi_productId item) of
        None \<Rightarrow> Inl (ProductNotFound (qi_productId item))
      | Some product \<Rightarrow>
          (let g = itemGroup product item;
               itemSubtotal = pig_price g * of_int (qi_quantity item)
           in resolveItems productStore rest
                (bucket_push (providerOf product) g itemsByProvider)
                (totalSubtotal + itemSubtotal)))"

text \<open>\<^verbatim>\<open>providerItems.reduce((sum, pi) => sum + pi.price * pi.item.quantity, 0)\<close>.\<close>

definition groupSubtotal :: "provider_item_group list \<Rightarrow> real" where
  "groupSubtotal providerItems =
     foldl (\<lambda>sum pitem. sum + pig_price pitem * of_int (qi_quantity (pig_item pitem))) 0
       providerItems"

subsection \<open>Checkout service: getQuote\<close>

record provider_shipping_option =
  so_provider :: string
  so_rateId :: string
  so_rateName :: string
  so_shippingCost :: real
  so_currency :: string
  so_minDeliveryDays :: "real option"
  so_maxDeliveryDays :: "real option"

record provider_breakdown =
  pb_provider :: string
  pb_itemCount :: nat
  pb_subtotal :: real
  pb_selectedShipping :: provider_shipping_option
  pb_availableRates :: "provider_shipping_option list"

record quote_output =
  q_subtotal :: real
  q_shippingCost :: real
  q_total :: real
  q_currency :: string
  q_providerBreakdown :: "provider_breakdown list"
  q_estimatedDelivery :: "(real \<times> real) option"

definition manualShipping :: provider_shipping_option where
  "manualShipping =
     \<lparr>so_provider = ''manual'', so_rateId = ''manual-standard'',
      so_rateName = ''Standard Shipping'', so_shippingCost = 0, so_currency = ''USD'',
      so_minDeliveryDays = Some 5, so_maxDeliveryDays = Some 10\<rparr>"

definition toShippingOption :: "string \<Rightarrow> shipping_rate \<Rightarrow> provider_shipping_option" where
  "toShippingOption providerName rate =
     \<lparr>so_provider = providerName, so_rateId = sr_id rate, so_rateName = sr_name rate,
      so_shippingCost = sr_rate rate, so_currency = sr_currency rate,
      so_minDeliveryDays = sr_minDeliveryDays rate,
      so_maxDeliveryDays = sr_maxDeliveryDays rate\<rparr>"

text \<open>
  \<^verbatim>\<open>rates.reduce((cheapest, rate) => rate.rate < cheapest.rate ? rate : cheapest)\<close>, on the
  array \<open>r # rs\<close> (the caller has excluded the empty array).
\<close>

definition cheapestRate :: "shipping_rate \<Rightarrow> shipping_rate list \<Rightarrow> shipping_rate" where
  "cheapestRate r rs =
     foldl (\<lambda>cheapest rate. if sr_rate rate < sr_rate cheapest then rate else cheapest) r rs"

text \<open>
  \<^verbatim>\<open>if (acc === undefined || d < acc) acc = d\<close> and its mirror image, guarded by
  \<^verbatim>\<open>d !== undefined\<close>.
\<close>

definition lowerDays :: "real option \<Rightarrow> real option \<Rightarrow> real option" where
  "lowerDays acc d =
     (case d of None \<Rightarrow> acc
      | Some v \<Rightarrow> (case acc of None \<Rightarrow> Some v | Some a \<Rightarrow> if v < a then Some v else Some a))"

definition raiseDays :: "real option \<Rightarrow> real option \<Rightarrow> real option" where
  "raiseDays acc d =
     (case d of None \<Rightarrow> acc
      | Some v \<Rightarrow> (case acc of None \<Rightarrow> Some v | Some a \<Rightarrow> if v > a then Some v else Some a))"

text \<open>The argument of \<^verbatim>\<open>provider.client.quoteOrder\<close> for one bucket.\<close>

definition quoteRequest :: "shipping_address \<Rightarrow> provider_item_group list \<Rightarrow> shipping_quote_input" where
  "quoteRequest address providerItems =
     \<lparr>sqi_recipient = buildRecipient address,
      sqi_items = mapToFulfillmentItems providerItems,
      sqi_currency = ''USD''\<rparr>"

text \<open>The variables that the second loop of \<^verbatim>\<open>getQuote\<close> updates.\<close>

record quote_acc =
  qa_providerBreakdown :: "provider_breakdown list"
  qa_totalShippingCost :: real
  qa_minDeliveryDays :: "real option"
  qa_maxDeliveryDays :: "real option"

text \<open>
  The second loop of \<^verbatim>\<open>getQuote\<close>, over \<^verbatim>\<open>itemsByProvider.entries()\<close>. The log of gateway
  calls is threaded through and returned with the result.
\<close>

fun quoteBuckets ::
  "marketplace_runtime \<Rightarrow> shipping_address \<Rightarrow> buckets \<Rightarrow> quote_acc \<Rightarrow> gateway_call list
    \<Rightarrow> (error + quote_acc) \<times> gateway_call list" where
  "quoteBuckets runtime address [] acc calls = (Inr acc, calls)"
| "quoteBuckets runtime address ((providerName, providerItems) # rest) acc calls =
     (case getProvider runtime providerName of
        None \<Rightarrow>
          if providerName = ''manual'' then
            quoteBuckets runtime address rest
              \<lparr>qa_providerBreakdown = qa_providerBreakdown acc @
                 [\<lparr>pb_provider = ''manual'', pb_itemCount = length providerItems,
                   pb_subtotal = groupSubtotal providerItems,
                   pb_selectedShipping = manualShipping,
                   pb_availableRates = [manualShipping]\<rparr>],
               qa_totalShippingCost = qa_totalShippingCost acc,
               qa_minDeliveryDays =
                 lowerDays (qa_minDeliveryDays acc) (so_minDeliveryDays manualShipping),
               qa_maxDeliveryDays =
                 raiseDays (qa_maxDeliveryDays acc) (so_maxDeliveryDays manualShipping)\<rparr>
              calls
          else (Inl (ProviderNotConfigured providerName), calls)
      | Some provider \<Rightarrow>
          (let request = quoteRequest address providerItems;
               calls' = calls @ [QuoteOrderCall providerName request]
           in case quoteOrder (fp_client provider) request of
                Inl message \<Rightarrow> (Inl (QuoteFailed providerName message), calls')
              | Inr [] \<Rightarrow> (Inl (NoShippingRates providerName), calls')
              | Inr (r # rs) \<Rightarrow>
                  (let selectedRate = cheapestRate r rs in
                   quoteBuckets runtime address rest
                     \<lparr>qa_providerBreakdown = qa_providerBreakdown acc @
                        [\<lparr>pb_provider = providerName, pb_itemCount = length providerItems,
                          pb_subtotal = groupSubtotal providerItems,
                          pb_selectedShipping = toShippingOption providerName selectedRate,
                          pb_availableRates = map (toShippingOption providerName) (r # rs)\<rparr>],
                      qa_totalShippingCost = qa_totalShippingCost acc + sr_rate selectedRate,
                      qa_minDeliveryDays =
                        lowerDays (qa_minDeliveryDays acc) (sr_minDeliveryDays selectedRate),
                      qa_maxDeliveryDays =
                        raiseDays (qa_maxDeliveryDays acc) (sr_maxDeliveryDays selectedRate)\<rparr>
                     calls')))"

definition getQuote ::
  "catalog \<Rightarrow> marketplace_runtime \<Rightarrow> quote_item_input list \<Rightarrow> shipping_address
    \<Rightarrow> (error + quote_output) \<times> gateway_call list" where
  "getQuote productStore runtime items address =
     (case resolveItems productStore items [] 0 of
        Inl e \<Rightarrow> (Inl e, [])
      | Inr (itemsByProvider, totalSubtotal) \<Rightarrow>
          (case quoteBuckets runtime address itemsByProvider
                  \<lparr>qa_providerBreakdown = [], qa_totalShippingCost = 0,
                   qa_minDeliveryDays = None, qa_maxDeliveryDays = None\<rparr> [] of
             (Inl e, calls) \<Rightarrow> (Inl e, calls)
           | (Inr acc, calls) \<Rightarrow>
               (Inr \<lparr>q_subtotal = totalSubtotal,
                     q_shippingCost = qa_totalShippingCost acc,
                     q_total = totalSubtotal + qa_totalShippingCost acc,
                     q_currency = ''USD'',
                     q_providerBreakdown = qa_providerBreakdown acc,
                     q_estimatedDelivery =
                       (case (qa_minDeliveryDays acc, qa_maxDeliveryDays acc) of
                          (Some lo, Some hi) \<Rightarrow> Some (lo, hi)
                        | _ \<Rightarrow> None)\<rparr>,
                calls)))"

subsection \<open>Order store (src/api/src/store/orders.ts; tables in src/api/src/services/products.ts, from line 330)\<close>

datatype order_status =
    pending | draft_created | paid | paid_pending_fulfillment | processing
  | shipped | delivered | cancelled | partially_cancelled | refunded

text \<open>
  A row of \<^verbatim>\<open>order_items\<close>; its id \<^verbatim>\<open>${orderId}-item-${index}\<close> is its position in the list
  of its order. Money is stored in cents. The columns \<^verbatim>\<open>variantName\<close> and \<^verbatim>\<open>attributes\<close>,
  which the checkout never supplies, are left out.
\<close>

record order_item_row =
  oir_productId :: string
  oir_variantId :: "string option"
  oir_productName :: string
  oir_quantity :: int
  oir_unitPrice :: int
  oir_fulfillmentProvider :: "string option"
  oir_fulfillmentConfig :: "fulfillment_config option"

text \<open>
  A row of \<^verbatim>\<open>orders\<close> with its items. \<^verbatim>\<open>fulfillmentReferenceId\<close>
  (\<^verbatim>\<open>order_${Date.now()}_${userId}\<close>) is kept as its two interpolated parts. The columns
  that none of the modelled operations writes (shipping method and address, fulfillment
  order id, tracking, delivery estimate) are left out.
\<close>

record order_row =
  or_id :: string
  or_userId :: string
  or_status :: order_status
  or_totalAmount :: int
  or_currency :: string
  or_checkoutSessionId :: "string option"
  or_checkoutProvider :: "string option"
  or_draftOrderIds :: "(string \<times> string) list option"
  or_fulfillmentReferenceId :: "int \<times> string"
  or_createdAt :: int
  or_updatedAt :: int
  or_items :: "order_item_row list"

record order_item =
  oi_productId :: string
  oi_variantId :: "string option"
  oi_productName :: string
  oi_quantity :: int
  oi_unitPrice :: real
  oi_fulfillmentProvider :: "string option"
  oi_fulfillmentConfig :: "fulfillment_config option"

text \<open>\<^verbatim>\<open>OrderWithItems\<close>, what the store hands back.\<close>

record order_with_items =
  ow_id :: string
  ow_userId :: string
  ow_status :: order_status
  ow_totalAmount :: real
  ow_currency :: string
  ow_checkoutSessionId :: "string option"
  ow_checkoutProvider :: "string option"
  ow_draftOrderIds :: "(string \<times> string) list option"
  ow_createdAt :: int
  ow_updatedAt :: int
  ow_items :: "order_item list"

record create_order_item_input =
  coi_productId :: string
  coi_variantId :: "string option"
  coi_productName :: string
  coi_quantity :: int
  coi_unitPrice :: real
  coi_fulfillmentProvider :: string
  coi_fulfillmentConfig :: "fulfillment_config option"

record create_order_input =
  coin_userId :: string
  coin_items :: "create_order_item_input list"
  coin_totalAmount :: real
  coin_currency :: string

text \<open>
  The world of an operation: the \<^verbatim>\<open>orders\<close> table in insertion order, the clock
  (\<^verbatim>\<open>Date.now()\<close>, in milliseconds), the values that \<^verbatim>\<open>crypto.randomUUID()\<close> will return
  with the number already drawn, the log of gateway calls, and the arithmetic of the
  platform: \<open>w_cents x\<close> is the integer that \<^verbatim>\<open>Math.round(x * 100)\<close> evaluates to, the product
  being taken in IEEE doubles. Nothing is assumed of it; in particular it need not be the
  rounding of the exact product.
\<close>

record world =
  w_orders :: "order_row list"
  w_now :: int
  w_cents :: "real \<Rightarrow> int"
  w_uuids :: "nat \<Rightarrow> string"
  w_uuidCount :: nat
  w_calls :: "gateway_call list"

definition getOrderItem :: "order_item_row \<Rightarrow> order_item" where
  "getOrderItem item =
     \<lparr>oi_productId = oir_productId item,
      oi_variantId = (if truthy (oir_variantId item) then oir_variantId item else None),
      oi_productName = oir_productName item,
      oi_quantity = oir_quantity item,
      oi_unitPrice = of_int (oir_unitPrice item) / 100,
      oi_fulfillmentProvider =
        (if truthy (oir_fulfillmentProvider item) then oir_fulfillmentProvider item else None),
      oi_fulfillmentConfig = oir_fulfillmentConfig item\<rparr>"

definition rowToOrder :: "order_row \<Rightarrow> order_with_items" where
  "rowToOrder row =
     \<lparr>ow_id = or_id row,
      ow_userId = or_userId row,
      ow_status = or_status row,
      ow_totalAmount = of_int (or_totalAmount row) / 100,
      ow_currency = or_currency row,
      ow_checkoutSessionId =
        (if truthy (or_checkoutSessionId row) then or_checkoutSessionId row else None),
      ow_checkoutProvider =
        (if or_checkoutProvider row = Some ''stripe'' \<or> or_checkoutProvider row = Some ''near''
         then or_checkoutProvider row else None),
      ow_draftOrderIds = or_draftOrderIds row,
      ow_createdAt = or_createdAt row * 1000,
      ow_updatedAt = or_updatedAt row * 1000,
      ow_items = map getOrderItem (or_items row)\<rparr>"

definition findOrderById :: "world \<Rightarrow> string \<Rightarrow> order_with_items option" where
  "findOrderById w ident = map_option rowToOrder (find (\<lambda>r. or_id r = ident) (w_orders w))"

definition toItemRow :: "(real \<Rightarrow> int) \<Rightarrow> create_order_item_input \<Rightarrow> order_item_row" where
  "toItemRow cents item =
     \<lparr>oir_productId = coi_productId item,
      oir_variantId = (if truthy (coi_variantId item) then coi_variantId item else None),
      oir_productName = coi_productName item,
      oir_quantity = coi_quantity item,
      oir_unitPrice = cents (coi_unitPrice item),
      oir_fulfillmentProvider =
        (if coi_fulfillmentProvider item \<noteq> [] then Some (coi_fulfillmentProvider item)
         else None),
      oir_fulfillmentConfig = coi_fulfillmentConfig item\<rparr>"

text \<open>
  \<^verbatim>\<open>orderStore.create\<close>. The id is the next random UUID; \<^verbatim>\<open>id\<close> is the primary key of the
  table, so the insert of an id that is already there throws. The \<^verbatim>\<open>timestamp\<close> columns
  keep the whole seconds of the clock (\<^verbatim>\<open>Math.floor(ms / 1000)\<close>) and are read back as
  that many seconds (\<open>rowToOrder\<close>, \<open>findAbandonedDrafts\<close>).
\<close>

definition orderStore_create ::
  "create_order_input \<Rightarrow> world \<Rightarrow> (error + order_with_items) \<times> world" where
  "orderStore_create input w =
     (let orderId = w_uuids w (w_uuidCount w);
          w1 = w\<lparr>w_uuidCount := Suc (w_uuidCount w)\<rparr>
      in if orderId \<in> or_id ` set (w_orders w1)
         then (Inl (CreateOrderFailed ''UNIQUE constraint failed: orders.id''), w1)
         else
           (let row = \<lparr>or_id = orderId, or_userId = coin_userId input, or_status = pending,
                       or_totalAmount = w_cents w1 (coin_totalAmount input),
                       or_currency = coin_currency input,
                       or_checkoutSessionId = None, or_checkoutProvider = None,
                       or_draftOrderIds = None,
                       or_fulfillmentReferenceId = (w_now w1, coin_userId input),
                       or_createdAt = w_now w1 div 1000, or_updatedAt = w_now w1 div 1000,
                       or_items = map (toItemRow (w_cents w1)) (coin_items input)\<rparr>;
                w2 = w1\<lparr>w_orders := w_orders w1 @ [row]\<rparr>
            in case findOrderById w2 orderId of
                 None \<Rightarrow> (Inl (CreateOrderFailed ''Failed to create order''), w2)
               | Some order \<Rightarrow> (Inr order, w2)))"

text \<open>\<^verbatim>\<open>db.update(orders).set(...).where(eq(orders.id, orderId))\<close>.\<close>

definition updateWhereId :: "string \<Rightarrow> (order_row \<Rightarrow> order_row) \<Rightarrow> world \<Rightarrow> world" where
  "updateWhereId orderId f w =
     w\<lparr>w_orders := map (\<lambda>r. if or_id r = orderId then f r else r) (w_orders w)\<rparr>"

definition updateCheckout ::
  "string \<Rightarrow> string \<Rightarrow> string \<Rightarrow> world \<Rightarrow> (error + order_with_items) \<times> world" where
  "updateCheckout orderId checkoutSessionId checkoutProvider w =
     (let w1 = updateWhereId orderId
                 (\<lambda>r. r\<lparr>or_checkoutSessionId := Some checkoutSessionId,
                         or_checkoutProvider := Some checkoutProvider,
                         or_updatedAt := w_now w div 1000\<rparr>) w
      in case findOrderById w1 orderId of
           None \<Rightarrow> (Inl (UpdateCheckoutFailed ''Order not found''), w1)
         | Some order \<Rightarrow> (Inr order, w1))"

definition updateDraftOrderIds ::
  "string \<Rightarrow> (string \<times> string) list \<Rightarrow> world \<Rightarrow> (error + order_with_items) \<times> world" where
  "updateDraftOrderIds orderId draftOrderIds w =
     (let w1 = updateWhereId orderId
                 (\<lambda>r. r\<lparr>or_draftOrderIds := Some draftOrderIds, or_updatedAt := w_now w div 1000\<rparr>) w
      in case findOrderById w1 orderId of
           None \<Rightarrow> (Inl (UpdateDraftOrderIdsFailed ''Order not found''), w1)
         | Some order \<Rightarrow> (Inr order, w1))"

definition updateStatus ::
  "string \<Rightarrow> order_status \<Rightarrow> world \<Rightarrow> (error + order_with_items) \<times> world" where
  "updateStatus orderId status w =
     (let w1 = updateWhereId orderId
                 (\<lambda>r. r\<lparr>or_status := status, or_updatedAt := w_now w div 1000\<rparr>) w
      in case findOrderById w1 orderId of
           None \<Rightarrow> (Inl (UpdateStatusFailed ''Order not found''), w1)
         | Some order \<Rightarrow> (Inr order, w1))"

text \<open>
  \<^verbatim>\<open>findAbandonedDrafts\<close>: the rows in status \<^verbatim>\<open>draft_created\<close>, newest first, of which those
  created before the cutoff are kept. (Rows with the same creation time come in the
  reverse of their insertion order here; SQL leaves their order open.)
\<close>

definition findAbandonedDrafts :: "int \<Rightarrow> world \<Rightarrow> order_with_items list" where
  "findAbandonedDrafts olderThanHours w =
     (let cutoffTime = w_now w - olderThanHours * 60 * 60 * 1000;
          results = rev (sort_key or_createdAt
                      (filter (\<lambda>r. or_status r = draft_created) (w_orders w)));
          abandoned = filter (\<lambda>order. or_createdAt order * 1000 < cutoffTime) results
      in map rowToOrder abandoned)"

subsection \<open>Checkout service: createCheckout\<close>

record create_checkout_params =
  cp_userId :: string
  cp_items :: "quote_item_input list"
  cp_address :: shipping_address
  cp_selectedRates :: "string \<Rightarrow> string option"
  cp_shippingCost :: real
  cp_successUrl :: string
  cp_cancelUrl :: string

record create_checkout_output =
  co_orderId :: string
  co_checkoutSessionId :: string
  co_checkoutUrl :: string
  co_draftOrderIds :: "(string \<times> string) list"

definition toOrderItemInput :: "provider_item_group \<Rightarrow> create_order_item_input" where
  "toOrderItemInput pitem =
     \<lparr>coi_productId = pig_productId pitem,
      coi_variantId = pig_variantId pitem,
      coi_productName = pig_productTitle pitem,
      coi_quantity = qi_quantity (pig_item pitem),
      coi_unitPrice = pig_price pitem,
      coi_fulfillmentProvider = pig_fulfillmentProvider pitem,
      coi_fulfillmentConfig = pig_fulfillmentConfig pitem\<rparr>"

definition toPaymentLineItem :: "(real \<Rightarrow> int) \<Rightarrow> provider_item_group \<Rightarrow> payment_line_item" where
  "toPaymentLineItem cents pitem =
     \<lparr>pli_name = pig_productTitle pitem,
      pli_description = pig_productDescription pitem,
      pli_image = pig_productImage pitem,
      pli_unitAmount = cents (pig_price pitem),
      pli_quantity = qi_quantity (pig_item pitem)\<rparr>"

text \<open>The argument of \<^verbatim>\<open>provider.client.createOrder\<close> for one bucket.\<close>

definition draftRequest ::
  "string \<Rightarrow> shipping_address \<Rightarrow> provider_item_group list \<Rightarrow> fulfillment_order_input" where
  "draftRequest orderId address providerItems =
     \<lparr>foin_externalId = orderId,
      foin_recipient = buildRecipient address,
      foin_items = mapToFulfillmentItems providerItems,
      foin_retailCurrency = ''USD''\<rparr>"

text \<open>
  The loop of \<^verbatim>\<open>createCheckout\<close> over \<^verbatim>\<open>itemsByProvider.entries()\<close> that creates the draft
  orders. \<open>draftOrderIds\<close> is the local dictionary of the source: it is returned when the
  loop ends normally and is lost when the loop fails.
\<close>

fun createDrafts ::
  "marketplace_runtime \<Rightarrow> shipping_address \<Rightarrow> (string \<Rightarrow> string option) \<Rightarrow> string \<Rightarrow> buckets
    \<Rightarrow> (string \<times> string) list \<Rightarrow> world \<Rightarrow> (error + (string \<times> string) list) \<times> world" where
  "createDrafts runtime address selectedRates orderId [] draftOrderIds w =
     (Inr draftOrderIds, w)"
| "createDrafts runtime address selectedRates orderId ((providerName, providerItems) # rest)
     draftOrderIds w =
     (if \<not> truthy (selectedRates providerName) then (Inl (NoRateSelected providerName), w)
      else if providerName = ''manual''
      then createDrafts runtime address selectedRates orderId rest draftOrderIds w
      else
        (case getProvider runtime providerName of
           None \<Rightarrow> (Inl (ProviderNotConfigured providerName), w)
         | Some provider \<Rightarrow>
             (let request = draftRequest orderId address providerItems;
                  w' = w\<lparr>w_calls := w_calls w @ [CreateOrderCall providerName request]\<rparr>
              in case createOrder (fp_client provider) request of
                   Inl message \<Rightarrow> (Inl (DraftOrderFailed providerName message), w')
                 | Inr draftId \<Rightarrow>
                     createDrafts runtime address selectedRates orderId rest
                       (dict_set providerName draftId draftOrderIds) w')))"

text \<open>The argument of \<^verbatim>\<open>paymentProvider.client.createCheckout\<close>.\<close>

definition paymentRequest ::
  "(real \<Rightarrow> int) \<Rightarrow> create_checkout_params \<Rightarrow> buckets \<Rightarrow> real \<Rightarrow> string
    \<Rightarrow> (string \<times> string) list \<Rightarrow> checkout_session_input" where
  "paymentRequest cents params itemsByProvider totalAmount orderId draftOrderIds =
     (let lineItems = map (toPaymentLineItem cents) (concat (map snd itemsByProvider)) @
            (if cp_shippingCost params > 0
             then [\<lparr>pli_name = ''Shipping'', pli_description = None, pli_image = None,
                    pli_unitAmount = cents (cp_shippingCost params),
                    pli_quantity = 1\<rparr>]
             else [])
      in \<lparr>csi_orderId = orderId,
          csi_amount = cents totalAmount,
          csi_currency = ''USD'',
          csi_items = lineItems,
          csi_successUrl = cp_successUrl params,
          csi_cancelUrl = cp_cancelUrl params,
          csi_metadataDraftOrderIds = draftOrderIds\<rparr>)"

text \<open>
  Everything of \<^verbatim>\<open>createCheckout\<close> after the draft loop: the payment session, then the three
  updates of the order row.
\<close>

definition finishCheckout ::
  "marketplace_runtime \<Rightarrow> create_checkout_params \<Rightarrow> buckets \<Rightarrow> real \<Rightarrow> string
    \<Rightarrow> (string \<times> string) list \<Rightarrow> world \<Rightarrow> (error + create_checkout_output) \<times> world" where
  "finishCheckout runtime params itemsByProvider totalAmount orderId draftOrderIds w =
     (case getPaymentProvider runtime ''stripe'' of
        None \<Rightarrow> (Inl PaymentNotConfigured, w)
      | Some paymentProvider \<Rightarrow>
          (let request = paymentRequest (w_cents w) params itemsByProvider totalAmount orderId
                           draftOrderIds;
               w1 = w\<lparr>w_calls := w_calls w @ [PaymentCheckoutCall ''stripe'' request]\<rparr>
           in case pp_client paymentProvider request of
                Inl message \<Rightarrow> (Inl (PaymentCheckoutFailed message), w1)
              | Inr checkout \<Rightarrow>
                  (case updateCheckout orderId (cso_sessionId checkout) ''stripe'' w1 of
                     (Inl e, w2) \<Rightarrow> (Inl e, w2)
                   | (Inr _, w2) \<Rightarrow>
                       (case updateDraftOrderIds orderId draftOrderIds w2 of
                          (Inl e, w3) \<Rightarrow> (Inl e, w3)
                        | (Inr _, w3) \<Rightarrow>
                            (case updateStatus orderId draft_created w3 of
                               (Inl e, w4) \<Rightarrow> (Inl e, w4)
                             | (Inr _, w4) \<Rightarrow>
                                 (Inr \<lparr>co_orderId = orderId,
                                       co_checkoutSessionId = cso_sessionId checkout,
                                       co_checkoutUrl = cso_url checkout,
                                       co_draftOrderIds = draftOrderIds\<rparr>, w4))))))"

definition createCheckout ::
  "catalog \<Rightarrow> marketplace_runtime \<Rightarrow> create_checkout_params \<Rightarrow> world
    \<Rightarrow> (error + create_checkout_output) \<times> world" where
  "createCheckout productStore runtime params w =
     (case resolveItems productStore (cp_items params) [] 0 of
        Inl e \<Rightarrow> (Inl e, w)
      | Inr (itemsByProvider, totalSubtotal) \<Rightarrow>
          (let totalAmount = totalSubtotal + cp_shippingCost params;
               orderItems = map toOrderItemInput (concat (map snd itemsByProvider))
           in case orderStore_create
                     \<lparr>coin_userId = cp_userId params, coin_items = orderItems,
                      coin_totalAmount = totalAmount, coin_currency = ''USD''\<rparr> w of
                (Inl e, w1) \<Rightarrow> (Inl e, w1)
              | (Inr order, w1) \<Rightarrow>
                  (case createDrafts runtime (cp_address params) (cp_selectedRates params)
                          (ow_id order) itemsByProvider [] w1 of
                     (Inl e, w2) \<Rightarrow> (Inl e, w2)
                   | (Inr draftOrderIds, w2) \<Rightarrow>
                       finishCheckout runtime params itemsByProvider totalAmount
                         (ow_id order) draftOrderIds w2)))"

subsection \<open>Cleanup of abandoned drafts (src/unnamed/part_003)\<close>

record cleanup_error =
  ce_orderId :: string
  ce_provider :: string
  ce_error :: string

record cleanup_result =
  cr_totalProcessed :: nat
  cr_cancelled :: nat
  cr_partiallyCancelled :: nat
  cr_failed :: nat
  cr_errors :: "cleanup_error list"

record cancellation_result =
  cn_provider :: string
  cn_success :: bool
  cn_error :: "string option"

text \<open>
  The inner loop, over \<^verbatim>\<open>Object.entries(order.draftOrderIds)\<close>: one cancellation per
  provider, a failure recorded and not propagated.
\<close>

fun cancelDrafts ::
  "marketplace_runtime \<Rightarrow> string \<Rightarrow> (string \<times> string) list \<Rightarrow> cancellation_result list
    \<Rightarrow> cleanup_error list \<Rightarrow> world \<Rightarrow> cancellation_result list \<times> cleanup_error list \<times> world" where
  "cancelDrafts runtime orderId [] cancellationResults errors w =
     (cancellationResults, errors, w)"
| "cancelDrafts runtime orderId ((providerName, draftId) # rest) cancellationResults errors w =
     (case getProvider runtime providerName of
        None \<Rightarrow>
          cancelDrafts runtime orderId rest
            (cancellationResults @
               [\<lparr>cn_provider = providerName, cn_success = False,
                 cn_error = Some ''Provider not found''\<rparr>])
            (errors @
               [\<lparr>ce_orderId = orderId, ce_provider = providerName,
                 ce_error = ''Provider not found''\<rparr>])
            w
      | Some provider \<Rightarrow>
          (let w' = w\<lparr>w_calls := w_calls w @ [CancelOrderCall providerName draftId]\<rparr> in
           case cancelOrder (fp_client provider) draftId of
             Inr _ \<Rightarrow>
               cancelDrafts runtime orderId rest
                 (cancellationResults @
                    [\<lparr>cn_provider = providerName, cn_success = True, cn_error = None\<rparr>])
                 errors w'
           | Inl message \<Rightarrow>
               cancelDrafts runtime orderId rest
                 (cancellationResults @
                    [\<lparr>cn_provider = providerName, cn_success = False,
                      cn_error = Some message\<rparr>])
                 (errors @
                    [\<lparr>ce_orderId = orderId, ce_provider = providerName,
                      ce_error = (if message \<noteq> [] then message else ''Unknown error'')\<rparr>])
                 w'))"

text \<open>The counters and the error list that the outer loop updates.\<close>

record sweep_acc =
  sw_cancelled :: nat
  sw_partiallyCancelled :: nat
  sw_failed :: nat
  sw_errors :: "cleanup_error list"

fun sweepOrders ::
  "marketplace_runtime \<Rightarrow> order_with_items list \<Rightarrow> sweep_acc \<Rightarrow> world
    \<Rightarrow> (error + sweep_acc) \<times> world" where
  "sweepOrders runtime [] acc w = (Inr acc, w)"
| "sweepOrders runtime (order # rest) acc w =
     (case ow_draftOrderIds order of
        None \<Rightarrow>
          (case updateStatus (ow_id order) cancelled w of
             (Inl e, w1) \<Rightarrow> (Inl e, w1)
           | (Inr _, w1) \<Rightarrow>
               sweepOrders runtime rest (acc\<lparr>sw_cancelled := sw_cancelled acc + 1\<rparr>) w1)
      | Some [] \<Rightarrow>
          (case updateStatus (ow_id order) cancelled w of
             (Inl e, w1) \<Rightarrow> (Inl e, w1)
           | (Inr _, w1) \<Rightarrow>
               sweepOrders runtime rest (acc\<lparr>sw_cancelled := sw_cancelled acc + 1\<rparr>) w1)
      | Some (entry # entries) \<Rightarrow>
          (case cancelDrafts runtime (ow_id order) (entry # entries) [] (sw_errors acc) w of
             (cancellationResults, errors, w1) \<Rightarrow>
               if list_all cn_success cancellationResults then
                 (case updateStatus (ow_id order) cancelled w1 of
                    (Inl e, w2) \<Rightarrow> (Inl e, w2)
                  | (Inr _, w2) \<Rightarrow>
                      sweepOrders runtime rest
                        (acc\<lparr>sw_cancelled := sw_cancelled acc + 1, sw_errors := errors\<rparr>) w2)
               else if list_ex cn_success cancellationResults then
                 (case updateStatus (ow_id order) partially_cancelled w1 of
                    (Inl e, w2) \<Rightarrow> (Inl e, w2)
                  | (Inr _, w2) \<Rightarrow>
                      sweepOrders runtime rest
                        (acc\<lparr>sw_partiallyCancelled := sw_partiallyCancelled acc + 1,
                             sw_errors := errors\<rparr>) w2)
               else
                 sweepOrders runtime rest
                   (acc\<lparr>sw_failed := sw_failed acc + 1, sw_errors := errors\<rparr>) w1))"

definition cleanupAbandonedDrafts ::
  "marketplace_runtime \<Rightarrow> int \<Rightarrow> world \<Rightarrow> (error + cleanup_result) \<times> world" where
  "cleanupAbandonedDrafts runtime maxAgeHours w =
     (let abandonedOrders = findAbandonedDrafts maxAgeHours w in
      if abandonedOrders = []
      then (Inr \<lparr>cr_totalProcessed = 0, cr_cancelled = 0, cr_partiallyCancelled = 0,
                 cr_failed = 0, cr_errors = []\<rparr>, w)
      else
        (case sweepOrders runtime abandonedOrders
                \<lparr>sw_cancelled = 0, sw_partiallyCancelled = 0, sw_failed = 0, sw_errors = []\<rparr> w of
           (Inl e, w1) \<Rightarrow> (Inl e, w1)
         | (Inr acc, w1) \<Rightarrow>
             (Inr \<lparr>cr_totalProcessed = length abandonedOrders,
                   cr_cancelled = sw_cancelled acc,
                   cr_partiallyCancelled = sw_partiallyCancelled acc,
                   cr_failed = sw_failed acc,
                   cr_errors = sw_errors acc\<rparr>, w1)))"

section \<open>Scenario data\<close>

text \<open>
  A small catalog, three carts and a few gateways, used to run the operations on concrete
  inputs: a locally fulfilled mug, a shirt printed by printful and a poster printed by
  gelato.
\<close>

definition demo_address :: shipping_address where
  "demo_address =
     \<lparr>sa_companyName = None, sa_firstName = ''Ada'', sa_lastName = ''Byron'',
      sa_addressLine1 = ''1 Main St'', sa_addressLine2 = None, sa_city = ''Austin'',
      sa_state = ''TX'', sa_postCode = ''73301'', sa_country = ''US'',
      sa_email = ''ada@example.com'', sa_phone = None\<rparr>"

definition demo_config :: fulfillment_config where
  "demo_config =
     \<lparr>fc_externalVariantId = Some ''ext-1'', fc_externalProductId = None,
      fc_designFiles = None, fc_catalogProductId = Some 71, fc_catalogVariantId = Some 4012\<rparr>"

definition mug :: product where
  "mug = \<lparr>p_id = ''manual-1'', p_title = ''Mug'', p_description = None, p_price = 10,
           p_currency = ''USD'', p_images = [], p_variants = [],
           p_fulfillmentProvider = ''manual''\<rparr>"

definition shirt :: product where
  "shirt = \<lparr>p_id = ''shirt-1'', p_title = ''Shirt'', p_description = None, p_price = 25,
             p_currency = ''USD'', p_images = [],
             p_variants = [\<lparr>pv_id = ''shirt-1-m'', pv_price = 25, pv_currency = ''USD'',
                             pv_fulfillmentConfig = Some demo_config\<rparr>],
             p_fulfillmentProvider = ''printful''\<rparr>"

definition poster :: product where
  "poster = \<lparr>p_id = ''poster-1'', p_title = ''Poster'', p_description = None, p_price = 15,
              p_currency = ''USD'', p_images = [],
              p_variants = [\<lparr>pv_id = ''poster-1-a3'', pv_price = 15, pv_currency = ''USD'',
                              pv_fulfillmentConfig = Some demo_config\<rparr>],
              p_fulfillmentProvider = ''gelato''\<rparr>"

definition demo_catalog :: catalog where
  "demo_catalog ident =
     (if ident = ''manual-1'' then Some mug
      else if ident = ''shirt-1'' then Some shirt
      else if ident = ''poster-1'' then Some poster
      else None)"

definition cartItem :: "string \<Rightarrow> int \<Rightarrow> quote_item_input" where
  "cartItem ident n = \<lparr>qi_productId = ident, qi_variantId = None, qi_quantity = n\<rparr>"

definition rate_r1 :: shipping_rate where
  "rate_r1 = \<lparr>sr_id = ''r1'', sr_name = ''Flat'', sr_rate = 5, sr_currency = ''USD'',
               sr_minDeliveryDays = Some 3, sr_maxDeliveryDays = Some 7\<rparr>"

definition rate_r2 :: shipping_rate where
  "rate_r2 = \<lparr>sr_id = ''r2'', sr_name = ''Express'', sr_rate = 8, sr_currency = ''USD'',
               sr_minDeliveryDays = Some 1, sr_maxDeliveryDays = Some 2\<rparr>"

definition clientWith ::
  "(string + shipping_rate list) \<Rightarrow> (string + string) \<Rightarrow> (string + unit) \<Rightarrow> fulfillment_client" where
  "clientWith q c x = \<lparr>quoteOrder = (\<lambda>_. q), createOrder = (\<lambda>_. c), cancelOrder = (\<lambda>_. x)\<rparr>"

definition printful_two_rates :: fulfillment_client where
  "printful_two_rates = clientWith (Inr [rate_r1, rate_r2]) (Inr ''pf-draft-1'') (Inr ())"

definition rate_min_only :: shipping_rate where
  "rate_min_only = \<lparr>sr_id = ''r3'', sr_name = ''Economy'', sr_rate = 5, sr_currency = ''USD'',
                     sr_minDeliveryDays = Some 3, sr_maxDeliveryDays = None\<rparr>"

definition printful_min_only :: fulfillment_client where
  "printful_min_only = clientWith (Inr [rate_min_only]) (Inr ''pf-draft-1'') (Inr ())"

definition printful_down :: fulfillment_client where
  "printful_down = clientWith (Inl ''timeout'') (Inl ''timeout'') (Inl ''timeout'')"

definition stripe_ok :: payment_client where
  "stripe_ok = (\<lambda>_. Inr \<lparr>cso_sessionId = ''cs_1'', cso_url = ''https://pay.example/cs_1''\<rparr>)"

text \<open>
  The cents of the scenarios: the exact product with 100, rounded to the nearest integer
  with a tie going up. Every amount of the scenarios has an exact product that is a whole
  number or lies at least a tenth away from a tie, where \<^verbatim>\<open>Math.round\<close> of the double
  product gives the same integer.
\<close>

definition exact_cents :: "real \<Rightarrow> int" where
  "exact_cents x = \<lfloor>x * 100 + 1 / 2\<rfloor>"

definition world0 :: world where
  "world0 = \<lparr>w_orders = [], w_now = 1000, w_cents = exact_cents,
             w_uuids = (\<lambda>n. ''order-1'' @ replicate n CHR ''0''),
             w_uuidCount = 0, w_calls = []\<rparr>"

definition gelato_no_drafts :: fulfillment_client where
  "gelato_no_drafts = clientWith (Inr [rate_r1]) (Inl ''boom'') (Inr ())"

definition checkoutParams ::
  "quote_item_input list \<Rightarrow> (string \<times> string) list \<Rightarrow> real \<Rightarrow> create_checkout_params" where
  "checkoutParams items rates cost =
     \<lparr>cp_userId = ''user-1'', cp_items = items, cp_address = demo_address,
      cp_selectedRates = map_of rates, cp_shippingCost = cost,
      cp_successUrl = ''https://shop.example/ok'', cp_cancelUrl = ''https://shop.example/back''\<rparr>"

definition demo_runtime :: marketplace_runtime where
  "demo_runtime =
     createMarketplaceRuntime (Some printful_two_rates) (Some gelato_no_drafts) (Some stripe_ok)"

definition hoodie :: product where
  "hoodie = \<lparr>p_id = ''hoodie-1'', p_title = ''Hoodie'', p_description = None, p_price = 40,
              p_currency = ''USD'', p_images = [],
              p_variants = [\<lparr>pv_id = ''hoodie-l'', pv_price = 45, pv_currency = ''USD'',
                              pv_fulfillmentConfig = Some demo_config\<rparr>],
              p_fulfillmentProvider = ''printful''\<rparr>"

definition hoodie_catalog :: catalog where
  "hoodie_catalog ident = (if ident = ''hoodie-1'' then Some hoodie else None)"

definition variantItem :: "string \<Rightarrow> quote_item_input" where
  "variantItem variantId =
     \<lparr>qi_productId = ''hoodie-1'', qi_variantId = Some variantId, qi_quantity = 1\<rparr>"

definition gelato_no_cancel :: fulfillment_client where
  "gelato_no_cancel = clientWith (Inr [rate_r1]) (Inr ''ge-draft-1'') (Inl ''already shipped'')"

definition sweep_runtime :: marketplace_runtime where
  "sweep_runtime =
     createMarketplaceRuntime (Some printful_two_rates) (Some gelato_no_cancel) None"

definition draftRow :: "string \<Rightarrow> (string \<times> string) list option \<Rightarrow> int \<Rightarrow> order_row" where
  "draftRow ident drafts created =
     \<lparr>or_id = ident, or_userId = ''user-1'', or_status = draft_created, or_totalAmount = 3000,
      or_currency = ''USD'', or_checkoutSessionId = Some ''cs_1'',
      or_checkoutProvider = Some ''stripe'', or_draftOrderIds = drafts,
      or_fulfillmentReferenceId = (created * 1000, ''user-1''),
      or_createdAt = created, or_updatedAt = created, or_items = []\<rparr>"

definition sweep_world :: world where
  "sweep_world =
     \<lparr>w_orders =
        [draftRow ''o1'' (Some [(''printful'', ''d1'')]) 0,
         draftRow ''o2'' (Some [(''printful'', ''d2''), (''gelato'', ''d3'')]) 1,
         draftRow ''o3'' (Some [(''gelato'', ''d4'')]) 2,
         draftRow ''o4'' None 3,
         draftRow ''o5'' (Some [(''printful'', ''d5'')]) 359000],
      w_now = 360000000, w_cents = exact_cents,
      w_uuids = (\<lambda>n. ''order-1'' @ replicate n CHR ''0''),
      w_uuidCount = 0, w_calls = []\<rparr>"

section \<open>Auxiliary notions\<close>

text \<open>
  What one bucket contributes to the provider breakdown of a quote, or the error that ends
  the quote at this bucket: the body of the second loop of \<^verbatim>\<open>getQuote\<close> seen as a
  function of the bucket alone.
\<close>

definition bucketEntry ::
  "marketplace_runtime \<Rightarrow> shipping_address \<Rightarrow> string \<times> provider_item_group list
    \<Rightarrow> error + provider_breakdown" where
  "bucketEntry rt address b =
     (case getProvider rt (fst b) of
        None \<Rightarrow>
          if fst b = ''manual''
          then Inr \<lparr>pb_provider = ''manual'', pb_itemCount = length (snd b),
                    pb_subtotal = groupSubtotal (snd b),
                    pb_selectedShipping = manualShipping,
                    pb_availableRates = [manualShipping]\<rparr>
          else Inl (ProviderNotConfigured (fst b))
      | Some provider \<Rightarrow>
          (case quoteOrder (fp_client provider) (quoteRequest address (snd b)) of
             Inl message \<Rightarrow> Inl (QuoteFailed (fst b) message)
           | Inr [] \<Rightarrow> Inl (NoShippingRates (fst b))
           | Inr (r # rs) \<Rightarrow>
               Inr \<lparr>pb_provider = fst b, pb_itemCount = length (snd b),
                     pb_subtotal = groupSubtotal (snd b),
                     pb_selectedShipping = toShippingOption (fst b) (cheapestRate r rs),
                     pb_availableRates = map (toShippingOption (fst b)) (r # rs)\<rparr>))"

fun bucketEntries ::
  "marketplace_runtime \<Rightarrow> shipping_address \<Rightarrow> buckets \<Rightarrow> error + provider_breakdown list" where
  "bucketEntries rt address [] = Inr []"
| "bucketEntries rt address (b # bs) =
     (case bucketEntry rt address b of
        Inl e \<Rightarrow> Inl e
      | Inr x \<Rightarrow> (case bucketEntries rt address bs of Inl e \<Rightarrow> Inl e | Inr xs \<Rightarrow> Inr (x # xs)))"

text \<open>The loop variables of \<^verbatim>\<open>getQuote\<close> after the entries \<open>new\<close> have been added.\<close>

definition accExtend :: "quote_acc \<Rightarrow> provider_breakdown list \<Rightarrow> quote_acc" where
  "accExtend acc new =
     \<lparr>qa_providerBreakdown = qa_providerBreakdown acc @ new,
      qa_totalShippingCost = qa_totalShippingCost acc +
        sum_list (map (\<lambda>b. so_shippingCost (pb_selectedShipping b)) new),
      qa_minDeliveryDays = foldl lowerDays (qa_minDeliveryDays acc)
        (map (\<lambda>b. so_minDeliveryDays (pb_selectedShipping b)) new),
      qa_maxDeliveryDays = foldl raiseDays (qa_maxDeliveryDays acc)
        (map (\<lambda>b. so_maxDeliveryDays (pb_selectedShipping b)) new)\<rparr>"

text \<open>The cheapest available rate is the selected one.\<close>

definition entry_ok :: "provider_breakdown \<Rightarrow> bool" where
  "entry_ok b = (pb_selectedShipping b \<in> set (pb_availableRates b) \<and>
     so_shippingCost (pb_selectedShipping b) = Min (so_shippingCost ` set (pb_availableRates b)))"

text \<open>The day bounds that are defined, in order.\<close>

definition reported :: "real option list \<Rightarrow> real list" where
  "reported ds = List.map_filter (\<lambda>d. d) ds"


text \<open>The row that \<^verbatim>\<open>orderStore.create\<close> inserts.\<close>

definition newOrderRow :: "create_order_input \<Rightarrow> world \<Rightarrow> order_row" where
  "newOrderRow input w =
     \<lparr>or_id = w_uuids w (w_uuidCount w), or_userId = coin_userId input, or_status = pending,
      or_totalAmount = w_cents w (coin_totalAmount input),
      or_currency = coin_currency input,
      or_checkoutSessionId = None, or_checkoutProvider = None,
      or_draftOrderIds = None,
      or_fulfillmentReferenceId = (w_now w, coin_userId input),
      or_createdAt = w_now w div 1000, or_updatedAt = w_now w div 1000,
      or_items = map (toItemRow (w_cents w)) (coin_items input)\<rparr>"



definition hasOrder :: "world \<Rightarrow> string \<Rightarrow> bool" where
  "hasOrder w ident \<longleftrightarrow> find (\<lambda>r. or_id r = ident) (w_orders w) \<noteq> None"

text \<open>Two worlds whose order tables hold the same ids with the same total amounts.\<close>

definition sameTotals :: "world \<Rightarrow> world \<Rightarrow> bool" where
  "sameTotals w w' \<longleftrightarrow>
     map (\<lambda>r. (or_id r, or_totalAmount r)) (w_orders w') =
     map (\<lambda>r. (or_id r, or_totalAmount r)) (w_orders w)"


text \<open>The group \<open>g\<close> is in the bucket of provider \<open>k\<close>.\<close>

definition in_buckets :: "string \<Rightarrow> provider_item_group \<Rightarrow> buckets \<Rightarrow> bool" where
  "in_buckets k g bs = list_ex (\<lambda>b. fst b = k \<and> g \<in> set (snd b)) bs"

text \<open>The error "Product not found".\<close>

definition isProductNotFound :: "error \<Rightarrow> bool" where
  "isProductNotFound e = (case e of ProductNotFound _ \<Rightarrow> True | _ \<Rightarrow> False)"


text \<open>
  The cleanup job in the words of its description. A cancellation succeeds when the provider
  of the entry is configured and its \<^verbatim>\<open>cancelOrder\<close> call returns. An order without recorded
  draft ids becomes \<^verbatim>\<open>cancelled\<close>; otherwise it becomes \<^verbatim>\<open>cancelled\<close> when every
  cancellation succeeds, \<^verbatim>\<open>partially_cancelled\<close> when some but not all succeed, and keeps
  its status (\<open>None\<close>) when none succeeds.
\<close>

definition cancelSucceeds :: "marketplace_runtime \<Rightarrow> string \<times> string \<Rightarrow> bool" where
  "cancelSucceeds rt entry =
     (case getProvider rt (fst entry) of
        None \<Rightarrow> False
      | Some provider \<Rightarrow>
          (case cancelOrder (fp_client provider) (snd entry) of
             Inl _ \<Rightarrow> False | Inr _ \<Rightarrow> True))"

definition draftEntries :: "order_with_items \<Rightarrow> (string \<times> string) list" where
  "draftEntries order = (case ow_draftOrderIds order of None \<Rightarrow> [] | Some entries \<Rightarrow> entries)"

definition sweepOutcome_spec :: "marketplace_runtime \<Rightarrow> order_with_items \<Rightarrow> order_status option" where
  "sweepOutcome_spec rt order =
     (if draftEntries order = [] then Some cancelled
      else if list_all (cancelSucceeds rt) (draftEntries order) then Some cancelled
      else if list_ex (cancelSucceeds rt) (draftEntries order) then Some partially_cancelled
      else None)"

text \<open>The order id and provider of every cancellation of an order that fails.\<close>

definition failedCancellations ::
  "marketplace_runtime \<Rightarrow> order_with_items \<Rightarrow> (string \<times> string) list" where
  "failedCancellations rt order =
     map (\<lambda>entry. (ow_id order, fst entry))
       (filter (\<lambda>entry. \<not> cancelSucceeds rt entry) (draftEntries order))"

definition errorKey :: "cleanup_error \<Rightarrow> string \<times> string" where
  "errorKey e = (ce_orderId e, ce_provider e)"

text \<open>The status of the row with a given id, and the bookkeeping of one step of the sweep.\<close>

definition rowStatus :: "world \<Rightarrow> string \<Rightarrow> order_status option" where
  "rowStatus w ident = map_option or_status (find (\<lambda>r. or_id r = ident) (w_orders w))"

definition accAfter :: "marketplace_runtime \<Rightarrow> order_with_items \<Rightarrow> sweep_acc \<Rightarrow> sweep_acc \<Rightarrow> bool" where
  "accAfter rt order acc acc' \<longleftrightarrow>
     sw_cancelled acc' =
       sw_cancelled acc + (if sweepOutcome_spec rt order = Some cancelled then 1 else 0) \<and>
     sw_partiallyCancelled acc' =
       sw_partiallyCancelled acc +
         (if sweepOutcome_spec rt order = Some partially_cancelled then 1 else 0) \<and>
     sw_failed acc' = sw_failed acc + (if sweepOutcome_spec rt order = None then 1 else 0) \<and>
     map errorKey (sw_errors acc') = map errorKey (sw_errors acc) @ failedCancellations rt order"

definition statusAfter :: "marketplace_runtime \<Rightarrow> order_with_items \<Rightarrow> order_status \<Rightarrow> order_status" where
  "statusAfter rt order st = (case sweepOutcome_spec rt order of None \<Rightarrow> st | Some s \<Rightarrow> s)"

section \<open>Lemmas\<close>

subsection \<open>Evaluation\<close>

lemmas demo_defs =
  demo_address_def demo_config_def mug_def shirt_def poster_def demo_catalog_def cartItem_def
  rate_r1_def rate_r2_def clientWith_def printful_two_rates_def


lemmas demo_defs2 = rate_min_only_def printful_min_only_def printful_down_def

lemmas quote_defs =
  getQuote_def createMarketplaceRuntime_def getProvider_def itemGroup_def selectVariant_def
  truthy_def first_elem_def providerOf_def groupSubtotal_def lowerDays_def raiseDays_def
  manualShipping_def toShippingOption_def cheapestRate_def quoteRequest_def buildRecipient_def
  mapToFulfillmentItems_def mapToFulfillmentItem_def Let_def

lemmas checkout_defs =
  createCheckout_def orderStore_create_def finishCheckout_def
  updateCheckout_def updateDraftOrderIds_def updateStatus_def updateWhereId_def
  findOrderById_def rowToOrder_def getOrderItem_def toItemRow_def toOrderItemInput_def
  toPaymentLineItem_def paymentRequest_def draftRequest_def getPaymentProvider_def
  exact_cents_def
  stripe_ok_def world0_def gelato_no_drafts_def checkoutParams_def

lemmas run_defs = checkout_defs quote_defs demo_defs demo_runtime_def

lemmas variant_defs = hoodie_def hoodie_catalog_def variantItem_def

lemmas sweep_defs =
  cleanupAbandonedDrafts_def findAbandonedDrafts_def updateStatus_def updateWhereId_def
  findOrderById_def rowToOrder_def getOrderItem_def getProvider_def createMarketplaceRuntime_def
  clientWith_def printful_two_rates_def gelato_no_cancel_def sweep_runtime_def draftRow_def
  sweep_world_def truthy_def Let_def

subsection \<open>Lists\<close>

lemma list_all2_right:
  "list_all2 P xs ys \<Longrightarrow> y \<in> set ys \<Longrightarrow> \<exists>x\<in>set xs. P x y"
  by (induction rule: list_all2_induct) auto

lemma list_all2_left:
  "list_all2 P xs ys \<Longrightarrow> x \<in> set xs \<Longrightarrow> \<exists>y\<in>set ys. P x y"
  by (induction rule: list_all2_induct) auto

subsection \<open>The cheapest rate\<close>

lemma cheapestRate_Cons:
  "cheapestRate r (x # xs) = cheapestRate (if sr_rate x < sr_rate r then x else r) xs"
  by (simp add: cheapestRate_def)

lemma cheapestRate_mem: "cheapestRate r rs \<in> set (r # rs)"
proof (induction rs arbitrary: r)
  case Nil
  show ?case by (simp add: cheapestRate_def)
next
  case (Cons x xs)
  from Cons.IH [of "if sr_rate x < sr_rate r then x else r"]
  show ?case unfolding cheapestRate_Cons by (auto split: if_splits)
qed

lemma cheapestRate_le: "y \<in> set (r # rs) \<Longrightarrow> sr_rate (cheapestRate r rs) \<le> sr_rate y"
proof (induction rs arbitrary: r y)
  case Nil
  then show ?case by (simp add: cheapestRate_def)
next
  case (Cons x xs)
  have start: "sr_rate (cheapestRate (if sr_rate x < sr_rate r then x else r) xs)
      \<le> sr_rate (if sr_rate x < sr_rate r then x else r)"
    by (rule Cons.IH) simp
  show ?case
  proof (cases "y \<in> set xs")
    case True
    then show ?thesis unfolding cheapestRate_Cons by (intro Cons.IH) simp
  next
    case False
    with Cons.prems have "y = r \<or> y = x" by auto
    with start show ?thesis unfolding cheapestRate_Cons by (auto split: if_splits)
  qed
qed

lemma cheapestRate_Min: "sr_rate (cheapestRate r rs) = Min (sr_rate ` set (r # rs))"
proof (rule sym, rule Min_eqI)
  show "finite (sr_rate ` set (r # rs))" by simp
  show "\<And>y. y \<in> sr_rate ` set (r # rs) \<Longrightarrow> sr_rate (cheapestRate r rs) \<le> y"
    using cheapestRate_le by blast
  show "sr_rate (cheapestRate r rs) \<in> sr_rate ` set (r # rs)"
    using cheapestRate_mem by blast
qed

lemma toShippingOption_cost [simp]: "so_shippingCost (toShippingOption n r) = sr_rate r"
  by (simp add: toShippingOption_def)
lemma toShippingOption_min [simp]: "so_minDeliveryDays (toShippingOption n r) = sr_minDeliveryDays r"
  by (simp add: toShippingOption_def)
lemma toShippingOption_max [simp]: "so_maxDeliveryDays (toShippingOption n r) = sr_maxDeliveryDays r"
  by (simp add: toShippingOption_def)

lemma entry_ok_manual:
  "entry_ok \<lparr>pb_provider = n, pb_itemCount = c, pb_subtotal = s,
     pb_selectedShipping = manualShipping, pb_availableRates = [manualShipping]\<rparr>"
  by (simp add: entry_ok_def)

lemma entry_ok_provider:
  "entry_ok \<lparr>pb_provider = n, pb_itemCount = c, pb_subtotal = s,
     pb_selectedShipping = toShippingOption n (cheapestRate r rs),
     pb_availableRates = map (toShippingOption n) (r # rs)\<rparr>"
proof -
  define xs where "xs = r # rs"
  have "toShippingOption n (cheapestRate r rs) \<in> toShippingOption n ` set xs"
    unfolding xs_def using cheapestRate_mem by blast
  moreover have "so_shippingCost ` toShippingOption n ` set xs = sr_rate ` set xs"
    by (simp add: image_image)
  moreover have "sr_rate (cheapestRate r rs) = Min (sr_rate ` set xs)"
    unfolding xs_def by (rule cheapestRate_Min)
  ultimately have "entry_ok \<lparr>pb_provider = n, pb_itemCount = c, pb_subtotal = s,
     pb_selectedShipping = toShippingOption n (cheapestRate r rs),
     pb_availableRates = map (toShippingOption n) xs\<rparr>"
    by (simp add: entry_ok_def)
  then show ?thesis by (simp only: xs_def)
qed

subsection \<open>The bucket loop of getQuote\<close>

lemma accExtend_Nil: "accExtend acc [] = acc"
  by (simp add: accExtend_def)

lemma accExtend_Cons: "accExtend (accExtend acc [e]) new = accExtend acc (e # new)"
  by (simp add: accExtend_def)

lemma quoteBuckets_fst:
  "fst (quoteBuckets rt address bs acc calls) =
     (case bucketEntries rt address bs of Inl e \<Rightarrow> Inl e | Inr new \<Rightarrow> Inr (accExtend acc new))"
proof (induction bs arbitrary: acc calls)
  case Nil
  show ?case by (simp add: accExtend_Nil)
next
  case (Cons b bs)
  obtain providerName providerItems where b: "b = (providerName, providerItems)"
    by (cases b)
  show ?case
  proof (cases "bucketEntry rt address b")
    case (Inl e)
    then show ?thesis
      unfolding b
      by (auto simp: bucketEntry_def Let_def split: option.splits if_splits sum.splits list.splits)
  next
    case (Inr x)
    have step: "\<exists>calls'. quoteBuckets rt address (b # bs) acc calls =
        quoteBuckets rt address bs (accExtend acc [x]) calls'"
      using Inr unfolding b
      by (auto simp: bucketEntry_def Let_def accExtend_def manualShipping_def
          split: option.splits if_splits sum.splits list.splits)
    then obtain calls' where "quoteBuckets rt address (b # bs) acc calls =
        quoteBuckets rt address bs (accExtend acc [x]) calls'" ..
    then show ?thesis
      using Inr Cons.IH [of "accExtend acc [x]" calls']
      by (simp add: accExtend_Cons split: sum.splits)
  qed
qed

lemma bucketEntries_Inr:
  "bucketEntries rt address bs = Inr new \<Longrightarrow>
     list_all2 (\<lambda>b e. bucketEntry rt address b = Inr e) bs new"
proof (induction bs arbitrary: new)
  case Nil
  then show ?case by simp
next
  case (Cons b bs)
  from Cons.prems obtain x xs where
    "bucketEntry rt address b = Inr x" "bucketEntries rt address bs = Inr xs" "new = x # xs"
    by (auto split: sum.splits)
  with Cons.IH [of xs] show ?case by simp
qed

lemma bucketEntries_Inl:
  "isl (bucketEntries rt address bs) \<longleftrightarrow> (\<exists>b\<in>set bs. isl (bucketEntry rt address b))"
  by (induction bs) (auto split: sum.splits)

lemma bucketEntry_isl:
  "isl (bucketEntry rt address (providerName, providerItems)) \<longleftrightarrow>
     (getProvider rt providerName = None \<and> providerName \<noteq> ''manual'') \<or>
     (\<exists>provider. getProvider rt providerName = Some provider \<and>
        (quoteOrder (fp_client provider) (quoteRequest address providerItems) = Inr [] \<or>
         (\<exists>message. quoteOrder (fp_client provider) (quoteRequest address providerItems) = Inl message)))"
  by (auto simp: bucketEntry_def split: option.splits sum.splits list.splits)

lemma bucketEntry_ok:
  assumes "bucketEntry rt address b = Inr e"
  shows "pb_provider e = fst b" and "entry_ok e"
proof -
  show "pb_provider e = fst b"
    using assms
    by (auto simp: bucketEntry_def split: option.splits if_splits sum.splits list.splits)
  show "entry_ok e"
    using assms entry_ok_manual entry_ok_provider
    by (auto simp: bucketEntry_def split: option.splits if_splits sum.splits list.splits)
qed

lemma bucketEntry_manual:
  assumes "bucketEntry rt address b = Inr e" "getProvider rt ''manual'' = None"
    "pb_provider e = ''manual''"
  shows "pb_selectedShipping e = manualShipping" "pb_availableRates e = [manualShipping]"
  using assms
  by (auto simp: bucketEntry_def split: option.splits if_splits sum.splits list.splits)

lemma getProvider_manual [simp]:
  "getProvider (createMarketplaceRuntime printful gelato stripe) ''manual'' = None"
  by (simp add: getProvider_def createMarketplaceRuntime_def split: option.splits)

lemma getQuote_Inr:
  assumes "getQuote productStore rt items address = (Inr q, calls)"
  obtains bs sub new where
    "resolveItems productStore items [] 0 = Inr (bs, sub)"
    "list_all2 (\<lambda>b e. bucketEntry rt address b = Inr e) bs new"
    "q_subtotal q = sub" "q_providerBreakdown q = new"
    "q_shippingCost q = sum_list (map (\<lambda>b. so_shippingCost (pb_selectedShipping b)) new)"
    "q_total q = q_subtotal q + q_shippingCost q"
    "q_estimatedDelivery q =
       (case (foldl lowerDays None (map (\<lambda>b. so_minDeliveryDays (pb_selectedShipping b)) new),
              foldl raiseDays None (map (\<lambda>b. so_maxDeliveryDays (pb_selectedShipping b)) new)) of
          (Some lo, Some hi) \<Rightarrow> Some (lo, hi) | _ \<Rightarrow> None)"
proof -
  from assms obtain bs sub where res: "resolveItems productStore items [] 0 = Inr (bs, sub)"
    by (auto simp: getQuote_def split: sum.splits)
  define acc0 where "acc0 = \<lparr>qa_providerBreakdown = [], qa_totalShippingCost = 0,
                   qa_minDeliveryDays = None, qa_maxDeliveryDays = None\<rparr>"
  from assms res obtain acc where
    qb: "quoteBuckets rt address bs acc0 [] = (Inr acc, calls)"
    and q: "q = \<lparr>q_subtotal = sub,
                     q_shippingCost = qa_totalShippingCost acc,
                     q_total = sub + qa_totalShippingCost acc,
                     q_currency = ''USD'',
                     q_providerBreakdown = qa_providerBreakdown acc,
                     q_estimatedDelivery =
                       (case (qa_minDeliveryDays acc, qa_maxDeliveryDays acc) of
                          (Some lo, Some hi) \<Rightarrow> Some (lo, hi)
                        | _ \<Rightarrow> None)\<rparr>"
    by (auto simp: getQuote_def acc0_def split: sum.splits prod.splits)
  from qb have "fst (quoteBuckets rt address bs acc0 []) = Inr acc" by simp
  then obtain new where new: "bucketEntries rt address bs = Inr new" "acc = accExtend acc0 new"
    unfolding quoteBuckets_fst by (auto split: sum.splits)
  show thesis
  proof (rule that [of bs sub new])
    show "resolveItems productStore items [] 0 = Inr (bs, sub)" by (rule res)
    show "list_all2 (\<lambda>b e. bucketEntry rt address b = Inr e) bs new"
      using new(1) by (simp add: bucketEntries_Inr)
  qed (simp_all add: q new(2) accExtend_def acc0_def)
qed

subsection \<open>Delivery days\<close>

lemma reported_simps [simp]:
  "reported [] = []" "reported (None # ds) = reported ds" "reported (Some v # ds) = v # reported ds"
  by (simp_all add: reported_def List.map_filter_simps)

lemma lowerDays_simps:
  "lowerDays acc None = acc" "lowerDays None (Some v) = Some v"
  "lowerDays (Some a) (Some v) = Some (min v a)"
  by (simp_all add: lowerDays_def min_def)

lemma raiseDays_simps:
  "raiseDays acc None = acc" "raiseDays None (Some v) = Some v"
  "raiseDays (Some a) (Some v) = Some (max v a)"
  by (simp_all add: raiseDays_def max_def)

lemma foldl_lowerDays_Some:
  "foldl lowerDays (Some a) ds = Some (Min (set (a # reported ds)))"
proof (induction ds arbitrary: a)
  case Nil
  show ?case by simp
next
  case (Cons d ds)
  show ?case
  proof (cases d)
    case None
    then show ?thesis using Cons.IH [of a] by (simp add: lowerDays_simps)
  next
    case (Some v)
    have "Min (set (a # v # reported ds)) = Min (set (min v a # reported ds))"
      by (cases "reported ds = []") (simp_all add: min.assoc min.commute min.left_commute)
    then show ?thesis
      using Some Cons.IH [of "min v a"]
      by (simp add: lowerDays_simps del: set_simps)
  qed
qed

lemma foldl_lowerDays_None:
  "foldl lowerDays None ds = (if reported ds = [] then None else Some (Min (set (reported ds))))"
proof (induction ds)
  case Nil
  show ?case by simp
next
  case (Cons d ds)
  then show ?case
    by (cases d) (simp_all add: lowerDays_simps foldl_lowerDays_Some)
qed

lemma foldl_raiseDays_Some:
  "foldl raiseDays (Some a) ds = Some (Max (set (a # reported ds)))"
proof (induction ds arbitrary: a)
  case Nil
  show ?case by simp
next
  case (Cons d ds)
  show ?case
  proof (cases d)
    case None
    then show ?thesis using Cons.IH [of a] by (simp add: raiseDays_simps)
  next
    case (Some v)
    have "Max (set (a # v # reported ds)) = Max (set (max v a # reported ds))"
      by (cases "reported ds = []") (simp_all add: max.assoc max.commute max.left_commute)
    then show ?thesis
      using Some Cons.IH [of "max v a"]
      by (simp add: raiseDays_simps del: set_simps)
  qed
qed

lemma foldl_raiseDays_None:
  "foldl raiseDays None ds = (if reported ds = [] then None else Some (Max (set (reported ds))))"
proof (induction ds)
  case Nil
  show ?case by simp
next
  case (Cons d ds)
  then show ?case
    by (cases d) (simp_all add: raiseDays_simps foldl_raiseDays_Some)
qed

lemma reported_map: "reported (map f xs) = List.map_filter f xs"
  by (induction xs) (auto simp: List.map_filter_simps split: option.splits)


subsection \<open>Resolving the cart\<close>

lemma resolveItems_isl:
  "isl (resolveItems productStore items bs sub) \<longleftrightarrow>
     (\<exists>item\<in>set items. productStore (qi_productId item) = None)"
  by (induction items arbitrary: bs sub) (auto simp: Let_def split: option.splits)

lemma resolveItems_one_provider:
  assumes "\<forall>item\<in>set items. \<exists>product. productStore (qi_productId item) = Some product \<and>
             providerOf product = name"
  shows "resolveItems productStore items [(name, gs)] sub =
     Inr ([(name, gs @ map (\<lambda>item. itemGroup (the (productStore (qi_productId item))) item) items)],
          sub + (\<Sum>item\<leftarrow>items. pig_price (itemGroup (the (productStore (qi_productId item))) item)
                                  * of_int (qi_quantity item)))"
  using assms
proof (induction items arbitrary: gs sub)
  case Nil
  show ?case by simp
next
  case (Cons item items)
  from Cons.prems obtain product where
    p: "productStore (qi_productId item) = Some product" "providerOf product = name"
    by auto
  from Cons.prems have rest: "\<forall>item\<in>set items. \<exists>product.
      productStore (qi_productId item) = Some product \<and> providerOf product = name"
    by simp
  show ?case
    using p Cons.IH [OF rest] by (simp add: Let_def add.assoc)
qed

lemma resolveItems_one_provider_start:
  assumes "items \<noteq> []"
    and "\<forall>item\<in>set items. \<exists>product. productStore (qi_productId item) = Some product \<and>
             providerOf product = name"
  shows "resolveItems productStore items [] 0 =
     Inr ([(name, map (\<lambda>item. itemGroup (the (productStore (qi_productId item))) item) items)],
          (\<Sum>item\<leftarrow>items. pig_price (itemGroup (the (productStore (qi_productId item))) item)
                            * of_int (qi_quantity item)))"
proof -
  from assms(1) obtain item rest where items: "items = item # rest" by (cases items) auto
  from assms(2) items obtain product where
    p: "productStore (qi_productId item) = Some product" "providerOf product = name"
    by auto
  from assms(2) items have rest: "\<forall>item\<in>set rest. \<exists>product.
      productStore (qi_productId item) = Some product \<and> providerOf product = name"
    by simp
  show ?thesis
    unfolding items using p resolveItems_one_provider [OF rest]
    by (simp add: Let_def)
qed

subsection \<open>Runs of getQuote on the scenario data\<close>

lemma demo_quote_run:
  "getQuote demo_catalog (createMarketplaceRuntime (Some printful_two_rates) None None)
        [cartItem ''shirt-1'' 1, cartItem ''manual-1'' 2] demo_address
     = (Inr \<lparr>q_subtotal = 45, q_shippingCost = 5, q_total = 50, q_currency = ''USD'',
             q_providerBreakdown =
               [\<lparr>pb_provider = ''printful'', pb_itemCount = 1, pb_subtotal = 25,
                 pb_selectedShipping = toShippingOption ''printful'' rate_r1,
                 pb_availableRates = [toShippingOption ''printful'' rate_r1,
                                      toShippingOption ''printful'' rate_r2]\<rparr>,
                \<lparr>pb_provider = ''manual'', pb_itemCount = 1, pb_subtotal = 20,
                 pb_selectedShipping = manualShipping,
                 pb_availableRates = [manualShipping]\<rparr>],
             q_estimatedDelivery = Some (3, 10)\<rparr>,
        [QuoteOrderCall ''printful''
           (quoteRequest demo_address [itemGroup shirt (cartItem ''shirt-1'' 1)])])"
  by (simp add: quote_defs demo_defs)

lemma printful_quote_run:
  "getQuote demo_catalog (createMarketplaceRuntime (Some printful_two_rates) None None)
        [cartItem ''shirt-1'' 1] demo_address
     = (Inr \<lparr>q_subtotal = 25, q_shippingCost = 5, q_total = 30, q_currency = ''USD'',
             q_providerBreakdown =
               [\<lparr>pb_provider = ''printful'', pb_itemCount = 1, pb_subtotal = 25,
                 pb_selectedShipping = toShippingOption ''printful'' rate_r1,
                 pb_availableRates = [toShippingOption ''printful'' rate_r1,
                                      toShippingOption ''printful'' rate_r2]\<rparr>],
             q_estimatedDelivery = Some (3, 7)\<rparr>,
        [QuoteOrderCall ''printful''
           (quoteRequest demo_address [itemGroup shirt (cartItem ''shirt-1'' 1)])])"
  by (simp add: quote_defs demo_defs)

lemma shirt_cart_buckets:
  "resolveItems demo_catalog [cartItem ''shirt-1'' 1] [] 0 =
     Inr ([(''printful'', [itemGroup shirt (cartItem ''shirt-1'' 1)])], 25)"
  by (simp add: quote_defs demo_defs)

lemma printful_configured:
  "getProvider (createMarketplaceRuntime (Some c) gelato stripe) ''printful'' =
     Some \<lparr>fp_name = ''printful'', fp_client = c\<rparr>"
  by (simp add: getProvider_def createMarketplaceRuntime_def)


subsection \<open>The order store and createCheckout\<close>

lemma find_append_new:
  "\<forall>x\<in>set xs. \<not> P x \<Longrightarrow> P y \<Longrightarrow> find P (xs @ [y]) = Some y"
  by (induction xs) auto

lemma orderStore_create_fresh:
  assumes "w_uuids w (w_uuidCount w) \<notin> or_id ` set (w_orders w)"
  shows "orderStore_create input w =
     (Inr (rowToOrder (newOrderRow input w)),
      w\<lparr>w_uuidCount := Suc (w_uuidCount w), w_orders := w_orders w @ [newOrderRow input w]\<rparr>)"
proof -
  have "find (\<lambda>r. or_id r = w_uuids w (w_uuidCount w)) (w_orders w @ [newOrderRow input w])
      = Some (newOrderRow input w)"
    using assms by (intro find_append_new) (force simp: newOrderRow_def)+
  then show ?thesis
    using assms
    by (simp add: orderStore_create_def Let_def findOrderById_def newOrderRow_def)
qed

lemma orderStore_create_isl:
  "isl (fst (orderStore_create input w)) \<Longrightarrow>
     \<exists>m. fst (orderStore_create input w) = Inl (CreateOrderFailed m)"
  by (auto simp: orderStore_create_def Let_def split: if_splits option.splits)

lemma ow_rowToOrder [simp]:
  "ow_id (rowToOrder r) = or_id r" "ow_status (rowToOrder r) = or_status r"
  "ow_draftOrderIds (rowToOrder r) = or_draftOrderIds r"
  "ow_totalAmount (rowToOrder r) = of_int (or_totalAmount r) / 100"
  by (simp_all add: rowToOrder_def)

lemma sameTotals_refl [simp]: "sameTotals w w"
  by (simp add: sameTotals_def)


lemma sameTotals_calls [simp]: "sameTotals w (w'\<lparr>w_calls := c\<rparr>) = sameTotals w w'"
  by (simp add: sameTotals_def)











lemma createCheckout_after_create:
  assumes res: "resolveItems productStore (cp_items params) [] 0 = Inr (itemsByProvider, subtotal)"
    and fresh: "w_uuids w (w_uuidCount w) \<notin> or_id ` set (w_orders w)"
  defines "input \<equiv> \<lparr>coin_userId = cp_userId params,
      coin_items = map toOrderItemInput (concat (map snd itemsByProvider)),
      coin_totalAmount = subtotal + cp_shippingCost params, coin_currency = ''USD''\<rparr>"
  defines "w1 \<equiv> w\<lparr>w_uuidCount := Suc (w_uuidCount w),
                    w_orders := w_orders w @ [newOrderRow input w]\<rparr>"
  shows "createCheckout productStore runtime params w =
     (case createDrafts runtime (cp_address params) (cp_selectedRates params)
             (w_uuids w (w_uuidCount w)) itemsByProvider [] w1 of
        (Inl e, w2) \<Rightarrow> (Inl e, w2)
      | (Inr draftOrderIds, w2) \<Rightarrow>
          finishCheckout runtime params itemsByProvider (subtotal + cp_shippingCost params)
            (w_uuids w (w_uuidCount w)) draftOrderIds w2)"
proof -
  have "orderStore_create input w = (Inr (rowToOrder (newOrderRow input w)), w1)"
    unfolding w1_def by (rule orderStore_create_fresh [OF fresh])
  moreover have "ow_id (rowToOrder (newOrderRow input w)) = w_uuids w (w_uuidCount w)"
    by (simp add: newOrderRow_def)
  ultimately show ?thesis
    unfolding createCheckout_def res input_def [symmetric]
    by (simp add: Let_def input_def [symmetric] split: prod.splits sum.splits)
qed

lemma find_new_row:
  assumes "w_uuids w (w_uuidCount w) \<notin> or_id ` set (w_orders w)"
  shows "find (\<lambda>r. or_id r = w_uuids w (w_uuidCount w)) (w_orders w @ [newOrderRow input w])
           = Some (newOrderRow input w)"
  using assms by (intro find_append_new) (force simp: newOrderRow_def)+

subsection \<open>The outcome of createCheckout once the order is created\<close>



lemma hasOrder_calls [simp]: "hasOrder (w\<lparr>w_calls := c\<rparr>) j = hasOrder w j"
  by (simp add: hasOrder_def)
















subsection \<open>Runs of createCheckout on the scenario data\<close>

lemma two_provider_buckets:
  "resolveItems demo_catalog [cartItem ''shirt-1'' 1, cartItem ''poster-1'' 1] [] 0 =
     Inr ([(''printful'', [itemGroup shirt (cartItem ''shirt-1'' 1)]),
           (''gelato'', [itemGroup poster (cartItem ''poster-1'' 1)])], 40)"
  by (simp add: quote_defs demo_defs)

lemma mug_buckets:
  "resolveItems demo_catalog [cartItem ''manual-1'' n] [] 0 =
     Inr ([(''manual'', [itemGroup mug (cartItem ''manual-1'' n)])], 10 * of_int n)"
  by (simp add: quote_defs demo_defs)


lemma demo_gateways:
  "getProvider demo_runtime ''printful'' = Some \<lparr>fp_name = ''printful'', fp_client = printful_two_rates\<rparr>"
  "getProvider demo_runtime ''gelato'' = Some \<lparr>fp_name = ''gelato'', fp_client = gelato_no_drafts\<rparr>"
  by (simp_all add: demo_runtime_def getProvider_def createMarketplaceRuntime_def)

lemma world0_fresh: "w_uuids world0 (w_uuidCount world0) = ''order-1''"
  "''order-1'' \<notin> or_id ` set (w_orders world0)"
  by (simp_all add: world0_def)


subsection \<open>Buckets and variants\<close>

lemma bucket_push_new: "in_buckets k g (bucket_push k g bs)"
  by (induction bs) (auto simp: in_buckets_def)

lemma bucket_push_keeps: "in_buckets k' g' bs \<Longrightarrow> in_buckets k' g' (bucket_push k g bs)"
  by (induction bs) (auto simp: in_buckets_def)

lemma in_buckets_iff:
  "in_buckets k g bs \<longleftrightarrow> (\<exists>gs. (k, gs) \<in> set bs \<and> g \<in> set gs)"
  by (induction bs) (auto simp: in_buckets_def)

lemma bucket_push_count:
  "(\<Sum>b\<leftarrow>bucket_push k g bs. length (snd b)) = Suc (\<Sum>b\<leftarrow>bs. length (snd b))"
  by (induction bs) auto

lemma resolveItems_keeps:
  "resolveItems productStore items bs0 s0 = Inr (bs, s) \<Longrightarrow> in_buckets k g bs0 \<Longrightarrow>
     in_buckets k g bs"
proof (induction items arbitrary: bs0 s0)
  case Nil
  then show ?case by simp
next
  case (Cons item items)
  from Cons.prems(1) obtain product where p: "productStore (qi_productId item) = Some product"
    by (auto split: option.splits)
  with Cons.prems(1) have "resolveItems productStore items
      (bucket_push (providerOf product) (itemGroup product item) bs0)
      (s0 + pig_price (itemGroup product item) * of_int (qi_quantity item)) = Inr (bs, s)"
    by (simp add: Let_def)
  then show ?case
    by (rule Cons.IH) (rule bucket_push_keeps [OF Cons.prems(2)])
qed

lemma resolveItems_contains:
  "resolveItems productStore items bs0 s0 = Inr (bs, s) \<Longrightarrow> item \<in> set items \<Longrightarrow>
     productStore (qi_productId item) = Some product \<Longrightarrow>
     in_buckets (providerOf product) (itemGroup product item) bs"
proof (induction items arbitrary: bs0 s0)
  case Nil
  then show ?case by simp
next
  case (Cons x items)
  from Cons.prems(1) obtain px where px: "productStore (qi_productId x) = Some px"
    by (auto split: option.splits)
  with Cons.prems(1) have rest: "resolveItems productStore items
      (bucket_push (providerOf px) (itemGroup px x) bs0)
      (s0 + pig_price (itemGroup px x) * of_int (qi_quantity x)) = Inr (bs, s)"
    by (simp add: Let_def)
  show ?case
  proof (cases "item = x")
    case True
    with px Cons.prems(3) have "px = product" by simp
    with True show ?thesis
      using resolveItems_keeps [OF rest bucket_push_new] by simp
  next
    case False
    with Cons.prems(2) have "item \<in> set items" by simp
    from Cons.IH [OF rest this Cons.prems(3)] show ?thesis .
  qed
qed

lemma resolveItems_count:
  "resolveItems productStore items bs0 s0 = Inr (bs, s) \<Longrightarrow>
     (\<Sum>b\<leftarrow>bs. length (snd b)) = (\<Sum>b\<leftarrow>bs0. length (snd b)) + length items"
proof (induction items arbitrary: bs0 s0)
  case Nil
  then show ?case by simp
next
  case (Cons x items)
  from Cons.prems(1) obtain px where px: "productStore (qi_productId x) = Some px"
    by (auto split: option.splits)
  with Cons.prems(1) have rest: "resolveItems productStore items
      (bucket_push (providerOf px) (itemGroup px x) bs0)
      (s0 + pig_price (itemGroup px x) * of_int (qi_quantity x)) = Inr (bs, s)"
    by (simp add: Let_def)
  from Cons.IH [OF rest] show ?case by (simp add: bucket_push_count)
qed

lemma find_None_variant:
  "\<forall>v\<in>set vs. pv_id v \<noteq> variantId \<Longrightarrow> find (\<lambda>v. Some (pv_id v) = Some variantId) vs = None"
  by (induction vs) auto

lemma itemGroup_unmatched:
  assumes "qi_variantId item = Some variantId" "variantId \<noteq> []"
    "\<forall>v\<in>set (p_variants product). pv_id v \<noteq> variantId"
  shows "pig_item (itemGroup product item) = item"
    "pig_price (itemGroup product item) = p_price product"
    "pig_variantId (itemGroup product item) = None"
    "pig_fulfillmentConfig (itemGroup product item) = None"
  using assms find_None_variant [OF assms(3)]
  by (simp_all add: itemGroup_def selectVariant_def truthy_def Let_def)

lemma bucketEntry_error: "bucketEntry rt address b = Inl e \<Longrightarrow> \<not> isProductNotFound e"
  by (auto simp: bucketEntry_def isProductNotFound_def
      split: option.splits if_splits sum.splits list.splits)

lemma bucketEntries_error: "bucketEntries rt address bs = Inl e \<Longrightarrow> \<not> isProductNotFound e"
proof (induction bs)
  case Nil
  then show ?case by simp
next
  case (Cons b bs)
  show ?case
  proof (cases "bucketEntry rt address b")
    case (Inl e')
    with Cons.prems have "e' = e" by simp
    with Inl show ?thesis using bucketEntry_error by blast
  next
    case (Inr x)
    with Cons.prems have "bucketEntries rt address bs = Inl e" by (simp split: sum.splits)
    then show ?thesis by (rule Cons.IH)
  qed
qed

lemma getQuote_error:
  assumes "resolveItems productStore items [] 0 = Inr r"
    and "fst (getQuote productStore rt items address) = Inl e"
  shows "\<not> isProductNotFound e"
proof -
  obtain bs sub where r: "r = (bs, sub)" by (cases r)
  from assms r have "fst (quoteBuckets rt address bs
      \<lparr>qa_providerBreakdown = [], qa_totalShippingCost = 0,
       qa_minDeliveryDays = None, qa_maxDeliveryDays = None\<rparr> []) = Inl e"
    by (auto simp: getQuote_def split: prod.splits sum.splits)
  then have "bucketEntries rt address bs = Inl e"
    by (simp add: quoteBuckets_fst split: sum.splits)
  then show ?thesis by (rule bucketEntries_error)
qed

lemma createDrafts_error:
  "fst (createDrafts rt address rates orderId bs d w) = Inl e \<Longrightarrow> \<not> isProductNotFound e"
proof (induction bs arbitrary: d w)
  case Nil
  then show ?case by simp
next
  case (Cons b bs)
  obtain name groups where b: "b = (name, groups)" by (cases b)
  from Cons.prems show ?case
    unfolding b
    by (auto simp: Let_def isProductNotFound_def dest: Cons.IH
        split: if_splits option.splits sum.splits)
qed

lemma update_errors:
  "fst (updateCheckout i s p w) = Inl e \<Longrightarrow> \<not> isProductNotFound e"
  "fst (updateDraftOrderIds i d w) = Inl e \<Longrightarrow> \<not> isProductNotFound e"
  "fst (updateStatus i st w) = Inl e \<Longrightarrow> \<not> isProductNotFound e"
  by (auto simp: updateCheckout_def updateDraftOrderIds_def updateStatus_def Let_def
      isProductNotFound_def split: option.splits)


lemma finishCheckout_error:
  assumes "fst (finishCheckout rt params bs totalAmount orderId d w) = Inl e"
  shows "\<not> isProductNotFound e"
proof (cases "getPaymentProvider rt ''stripe''")
  case None
  with assms show ?thesis by (simp add: finishCheckout_def isProductNotFound_def)
next
  case (Some pp)
  define request where
    "request = paymentRequest (w_cents w) params bs totalAmount orderId d"
  define w1 where "w1 = w\<lparr>w_calls := w_calls w @ [PaymentCheckoutCall ''stripe'' request]\<rparr>"
  show ?thesis
  proof (cases "pp_client pp request")
    case (Inl m)
    then have "fst (finishCheckout rt params bs totalAmount orderId d w)
        = Inl (PaymentCheckoutFailed m)"
      using Some by (simp add: finishCheckout_def Let_def request_def)
    with assms show ?thesis by (auto simp: isProductNotFound_def)
  next
    case (Inr checkout)
    obtain r2 w2 where u2:
      "updateCheckout orderId (cso_sessionId checkout) ''stripe'' w1 = (r2, w2)"
      by (cases "updateCheckout orderId (cso_sessionId checkout) ''stripe'' w1")
    obtain r3 w3 where u3: "updateDraftOrderIds orderId d w2 = (r3, w3)"
      by (cases "updateDraftOrderIds orderId d w2")
    obtain r4 w4 where u4: "updateStatus orderId draft_created w3 = (r4, w4)"
      by (cases "updateStatus orderId draft_created w3")
    have unfold: "finishCheckout rt params bs totalAmount orderId d w =
        (case r2 of Inl e \<Rightarrow> (Inl e, w2)
         | Inr _ \<Rightarrow> (case r3 of Inl e \<Rightarrow> (Inl e, w3)
            | Inr _ \<Rightarrow> (case r4 of Inl e \<Rightarrow> (Inl e, w4)
               | Inr _ \<Rightarrow> (Inr \<lparr>co_orderId = orderId,
                                       co_checkoutSessionId = cso_sessionId checkout,
                                       co_checkoutUrl = cso_url checkout,
                                       co_draftOrderIds = d\<rparr>, w4))))"
      unfolding finishCheckout_def Let_def
      by (simp add: Some Inr [unfolded request_def] u2 [unfolded w1_def request_def]
          u3 u4 split: sum.splits)
    from u2 u3 u4 have errs:
      "r2 = Inl e \<Longrightarrow> \<not> isProductNotFound e"
      "r3 = Inl e \<Longrightarrow> \<not> isProductNotFound e"
      "r4 = Inl e \<Longrightarrow> \<not> isProductNotFound e"
      using update_errors(1) [of orderId "cso_sessionId checkout" "''stripe''" w1 e]
        update_errors(2) [of orderId d w2 e] update_errors(3) [of orderId draft_created w3 e]
      by simp_all
    from assms show ?thesis
      unfolding unfold using errs by (auto split: sum.splits)
  qed
qed

lemma createCheckout_error:
  assumes res: "resolveItems productStore (cp_items params) [] 0 = Inr r"
    and err: "fst (createCheckout productStore rt params w) = Inl e"
  shows "\<not> isProductNotFound e"
proof -
  obtain bs sub where r: "r = (bs, sub)" by (cases r)
  define input where "input = \<lparr>coin_userId = cp_userId params,
      coin_items = map toOrderItemInput (concat (map snd bs)),
      coin_totalAmount = sub + cp_shippingCost params, coin_currency = ''USD''\<rparr>"
  obtain rc w1 where c: "orderStore_create input w = (rc, w1)"
    by (cases "orderStore_create input w")
  show ?thesis
  proof (cases rc)
    case (Inl ec)
    from c Inl have "isl (fst (orderStore_create input w))" by simp
    from orderStore_create_isl [OF this] c Inl obtain m where "ec = CreateOrderFailed m"
      by auto
    moreover from res r c Inl have "fst (createCheckout productStore rt params w) = Inl ec"
      by (simp add: createCheckout_def Let_def input_def)
    ultimately show ?thesis using err by (auto simp: isProductNotFound_def)
  next
    case (Inr order)
    obtain rd w2 where dr: "createDrafts rt (cp_address params) (cp_selectedRates params)
        (ow_id order) bs [] w1 = (rd, w2)"
      by (cases "createDrafts rt (cp_address params) (cp_selectedRates params)
        (ow_id order) bs [] w1")
    show ?thesis
    proof (cases rd)
      case (Inl ed)
      from dr Inl have "fst (createDrafts rt (cp_address params) (cp_selectedRates params)
        (ow_id order) bs [] w1) = Inl ed" by simp
      then have "\<not> isProductNotFound ed" by (rule createDrafts_error)
      moreover from res r c Inr dr Inl
      have "fst (createCheckout productStore rt params w) = Inl ed"
        by (simp add: createCheckout_def Let_def input_def)
      ultimately show ?thesis using err by simp
    next
      case (Inr d)
      from res r c \<open>rc = Inr order\<close> dr Inr
      have "createCheckout productStore rt params w =
          finishCheckout rt params bs (sub + cp_shippingCost params) (ow_id order) d w2"
        by (simp add: createCheckout_def Let_def input_def)
      with err show ?thesis using finishCheckout_error by simp
    qed
  qed
qed


subsection \<open>The cleanup job\<close>

lemma cancelDrafts_eq:
  "\<exists>results' errors' calls'.
     cancelDrafts rt orderId entries results errors w =
       (results @ results', errors @ errors', w\<lparr>w_calls := w_calls w @ calls'\<rparr>) \<and>
     map cn_success results' = map (cancelSucceeds rt) entries \<and>
     map errorKey errors' =
       map (\<lambda>entry. (orderId, fst entry)) (filter (\<lambda>entry. \<not> cancelSucceeds rt entry) entries)"
proof (induction entries arbitrary: results errors w)
  case Nil
  show ?case by (intro exI [of _ "[]"]) simp
next
  case (Cons entry entries)
  obtain providerName draftId where entry: "entry = (providerName, draftId)" by (cases entry)
  show ?case
  proof (cases "getProvider rt providerName")
    case None
    define r where "r = \<lparr>cn_provider = providerName, cn_success = False,
                 cn_error = Some ''Provider not found''\<rparr>"
    define e where "e = \<lparr>ce_orderId = orderId, ce_provider = providerName,
                 ce_error = ''Provider not found''\<rparr>"
    from Cons.IH [of "results @ [r]" "errors @ [e]" w]
    obtain results' errors' calls' where ih:
      "cancelDrafts rt orderId entries (results @ [r]) (errors @ [e]) w =
         ((results @ [r]) @ results', (errors @ [e]) @ errors', w\<lparr>w_calls := w_calls w @ calls'\<rparr>)"
      "map cn_success results' = map (cancelSucceeds rt) entries"
      "map errorKey errors' =
         map (\<lambda>entry. (orderId, fst entry)) (filter (\<lambda>entry. \<not> cancelSucceeds rt entry) entries)"
      by blast
    have fail: "\<not> cancelSucceeds rt entry" using None by (simp add: cancelSucceeds_def entry)
    show ?thesis
      apply (rule exI [of _ "r # results'"], rule exI [of _ "e # errors'"],
          rule exI [of _ calls'])
      using ih None fail
      by (simp add: entry r_def [symmetric] e_def [symmetric])
        (simp add: r_def e_def errorKey_def)
  next
    case (Some provider)
    define w1 where "w1 = w\<lparr>w_calls := w_calls w @ [CancelOrderCall providerName draftId]\<rparr>"
    show ?thesis
    proof (cases "cancelOrder (fp_client provider) draftId")
      case (Inr u)
      define r where "r = \<lparr>cn_provider = providerName, cn_success = True, cn_error = None\<rparr>"
      from Cons.IH [of "results @ [r]" errors w1]
      obtain results' errors' calls' where ih:
        "cancelDrafts rt orderId entries (results @ [r]) errors w1 =
           ((results @ [r]) @ results', errors @ errors', w1\<lparr>w_calls := w_calls w1 @ calls'\<rparr>)"
        "map cn_success results' = map (cancelSucceeds rt) entries"
        "map errorKey errors' =
           map (\<lambda>entry. (orderId, fst entry)) (filter (\<lambda>entry. \<not> cancelSucceeds rt entry) entries)"
        by blast
      have ok: "cancelSucceeds rt entry" using Some Inr by (simp add: cancelSucceeds_def entry)
      show ?thesis
        apply (rule exI [of _ "r # results'"], rule exI [of _ errors'],
            rule exI [of _ "CancelOrderCall providerName draftId # calls'"])
        using ih Some Inr ok
        by (simp add: entry Let_def r_def [symmetric] w1_def [symmetric])
          (simp add: r_def w1_def)
    next
      case (Inl message)
      define r where "r = \<lparr>cn_provider = providerName, cn_success = False,
                      cn_error = Some message\<rparr>"
      define e where "e = \<lparr>ce_orderId = orderId, ce_provider = providerName,
                      ce_error = (if message \<noteq> [] then message else ''Unknown error'')\<rparr>"
      from Cons.IH [of "results @ [r]" "errors @ [e]" w1]
      obtain results' errors' calls' where ih:
        "cancelDrafts rt orderId entries (results @ [r]) (errors @ [e]) w1 =
           ((results @ [r]) @ results', (errors @ [e]) @ errors',
            w1\<lparr>w_calls := w_calls w1 @ calls'\<rparr>)"
        "map cn_success results' = map (cancelSucceeds rt) entries"
        "map errorKey errors' =
           map (\<lambda>entry. (orderId, fst entry)) (filter (\<lambda>entry. \<not> cancelSucceeds rt entry) entries)"
        by blast
      have fail: "\<not> cancelSucceeds rt entry" using Some Inl by (simp add: cancelSucceeds_def entry)
      show ?thesis
        apply (rule exI [of _ "r # results'"], rule exI [of _ "e # errors'"],
            rule exI [of _ "CancelOrderCall providerName draftId # calls'"])
        using ih Some Inl fail
        by (simp add: entry Let_def r_def [symmetric] e_def [symmetric] w1_def [symmetric])
          (simp add: r_def e_def w1_def errorKey_def)
    qed
  qed
qed


lemma map_eq_all_ex:
  "map f xs = map g ys \<Longrightarrow> list_all f xs = list_all g ys \<and> list_ex f xs = list_ex g ys"
proof (induction xs arbitrary: ys)
  case Nil
  then show ?case by simp
next
  case (Cons x xs)
  then obtain y ys' where "ys = y # ys'" "f x = g y" "map f xs = map g ys'"
    by (cases ys) auto
  with Cons.IH [of ys'] show ?case by simp
qed

lemma find_update_row:
  assumes "\<And>r. or_id (f r) = or_id r"
  shows "find (\<lambda>r. or_id r = j) (map (\<lambda>r. if or_id r = i then f r else r) rows) =
         map_option (\<lambda>r. if or_id r = i then f r else r) (find (\<lambda>r. or_id r = j) rows)"
  using assms by (induction rows) auto

lemma rowStatus_calls [simp]: "rowStatus (w\<lparr>w_calls := c\<rparr>) j = rowStatus w j"
  by (simp add: rowStatus_def)

lemma ids_calls [simp]: "w_orders (w\<lparr>w_calls := c\<rparr>) = w_orders w"
  by simp

lemma find_Some_id:
  "find (\<lambda>r. or_id r = j) rows = Some r \<Longrightarrow> or_id r = j"
  by (induction rows) (auto split: if_splits)

lemma rowStatus_setStatus:
  "rowStatus (updateWhereId i (\<lambda>r. r\<lparr>or_status := s, or_updatedAt := t\<rparr>) w) j =
     (if j = i then map_option (\<lambda>_. s) (rowStatus w j) else rowStatus w j)"
proof -
  define g where "g = (\<lambda>r::order_row. if or_id r = i then r\<lparr>or_status := s, or_updatedAt := t\<rparr> else r)"
  have "find (\<lambda>r. or_id r = j)
          (map (\<lambda>r. if or_id r = i then r\<lparr>or_status := s, or_updatedAt := t\<rparr> else r) (w_orders w)) =
        map_option (\<lambda>r. if or_id r = i then r\<lparr>or_status := s, or_updatedAt := t\<rparr> else r)
          (find (\<lambda>r. or_id r = j) (w_orders w))"
    by (rule find_update_row) simp
  then have eq: "rowStatus (updateWhereId i (\<lambda>r. r\<lparr>or_status := s, or_updatedAt := t\<rparr>) w) j =
      map_option or_status (map_option g (find (\<lambda>r. or_id r = j) (w_orders w)))"
    by (simp add: rowStatus_def updateWhereId_def g_def)
  show ?thesis
  proof (cases "find (\<lambda>r. or_id r = j) (w_orders w)")
    case None
    then show ?thesis unfolding eq by (auto simp: rowStatus_def)
  next
    case (Some r)
    from find_Some_id [OF Some] have "or_id r = j" .
    with Some show ?thesis unfolding eq by (auto simp: rowStatus_def g_def)
  qed
qed

lemma ids_setStatus:
  "map or_id (w_orders (updateWhereId i (\<lambda>r. r\<lparr>or_status := s, or_updatedAt := t\<rparr>) w)) =
     map or_id (w_orders w)"
  by (simp add: updateWhereId_def)

lemma find_present:
  "i \<in> or_id ` set rows \<Longrightarrow> \<exists>r. find (\<lambda>r. or_id r = i) rows = Some r"
  by (induction rows) auto

lemma updateStatus_ok:
  assumes "i \<in> or_id ` set (w_orders w)"
  shows "\<exists>order. updateStatus i s w =
           (Inr order, updateWhereId i (\<lambda>r. r\<lparr>or_status := s, or_updatedAt := w_now w div 1000\<rparr>) w)"
proof -
  let ?w1 = "updateWhereId i (\<lambda>r. r\<lparr>or_status := s, or_updatedAt := w_now w div 1000\<rparr>) w"
  have "or_id ` set (w_orders ?w1) = set (map or_id (w_orders ?w1))" by simp
  also have "\<dots> = or_id ` set (w_orders w)" by (simp only: ids_setStatus) simp
  finally have "i \<in> or_id ` set (w_orders ?w1)" using assms by simp
  from find_present [OF this] obtain r where "find (\<lambda>r. or_id r = i) (w_orders ?w1) = Some r" ..
  then show ?thesis
    by (simp add: updateStatus_def Let_def findOrderById_def)
qed


lemma sweepOrders_step:
  assumes present: "ow_id order \<in> or_id ` set (w_orders w)"
  shows "\<exists>acc1 w1. sweepOrders rt (order # rest) acc w = sweepOrders rt rest acc1 w1 \<and>
           accAfter rt order acc acc1 \<and>
           map or_id (w_orders w1) = map or_id (w_orders w) \<and>
           (\<forall>j. rowStatus w1 j =
              (if j = ow_id order then map_option (statusAfter rt order) (rowStatus w j)
               else rowStatus w j))"
proof -
  have trivial: ?thesis if empty: "draftEntries order = []"
    and unfold: "sweepOrders rt (order # rest) acc w =
      (case updateStatus (ow_id order) cancelled w of
             (Inl e, w1) \<Rightarrow> (Inl e, w1)
           | (Inr _, w1) \<Rightarrow>
               sweepOrders rt rest (acc\<lparr>sw_cancelled := sw_cancelled acc + 1\<rparr>) w1)"
  proof -
    let ?w1 = "updateWhereId (ow_id order)
        (\<lambda>r. r\<lparr>or_status := cancelled, or_updatedAt := w_now w div 1000\<rparr>) w"
    from updateStatus_ok [OF present, of cancelled]
    obtain o' where "updateStatus (ow_id order) cancelled w = (Inr o', ?w1)" ..
    with unfold have run: "sweepOrders rt (order # rest) acc w =
        sweepOrders rt rest (acc\<lparr>sw_cancelled := sw_cancelled acc + 1\<rparr>) ?w1"
      by simp
    have out: "sweepOutcome_spec rt order = Some cancelled"
      using empty by (simp add: sweepOutcome_spec_def)
    have acc: "accAfter rt order acc (acc\<lparr>sw_cancelled := sw_cancelled acc + 1\<rparr>)"
      using empty by (simp add: accAfter_def out failedCancellations_def)
    have st: "\<forall>j. rowStatus ?w1 j =
              (if j = ow_id order then map_option (statusAfter rt order) (rowStatus w j)
               else rowStatus w j)"
      by (simp add: rowStatus_setStatus statusAfter_def [abs_def] out)
    have ids: "map or_id (w_orders ?w1) = map or_id (w_orders w)"
      by (simp add: ids_setStatus)
    from run acc st ids show ?thesis by blast
  qed
  show ?thesis
  proof (cases "ow_draftOrderIds order")
    case None
    show ?thesis
      by (rule trivial) (simp_all add: None draftEntries_def)
  next
    case (Some entries)
    show ?thesis
    proof (cases entries)
      case Nil
      show ?thesis
        by (rule trivial) (simp_all add: Some Nil draftEntries_def)
    next
      case (Cons entry entries')
      have de: "draftEntries order = entries" "entries \<noteq> []"
        by (simp_all add: draftEntries_def Some Cons)
      from cancelDrafts_eq [of rt "ow_id order" entries "[]" "sw_errors acc" w]
      obtain results errors' calls' where cd:
        "cancelDrafts rt (ow_id order) entries [] (sw_errors acc) w =
           (results, sw_errors acc @ errors', w\<lparr>w_calls := w_calls w @ calls'\<rparr>)"
        "map cn_success results = map (cancelSucceeds rt) entries"
        "map errorKey errors' =
           map (\<lambda>entry. (ow_id order, fst entry))
             (filter (\<lambda>entry. \<not> cancelSucceeds rt entry) entries)"
        by auto
      define wc where "wc = w\<lparr>w_calls := w_calls w @ calls'\<rparr>"
      define errors where "errors = sw_errors acc @ errors'"
      from map_eq_all_ex [OF cd(2)] have ae:
        "list_all cn_success results = list_all (cancelSucceeds rt) entries"
        "list_ex cn_success results = list_ex (cancelSucceeds rt) entries"
        by simp_all
      have keys: "map errorKey errors = map errorKey (sw_errors acc) @ failedCancellations rt order"
        by (simp add: errors_def cd(3) failedCancellations_def de)
      have presentc: "ow_id order \<in> or_id ` set (w_orders wc)"
        using present by (simp add: wc_def)
      have ids: "ow_draftOrderIds order = Some (entry # entries')"
        by (simp add: Some Cons)
      have cd1: "cancelDrafts rt (ow_id order) (entry # entries') [] (sw_errors acc) w =
           (results, errors, wc)"
        using cd(1) by (simp only: Cons wc_def errors_def)
      have step1: "sweepOrders rt (order # rest) acc w =
        (if list_all cn_success results then
                 (case updateStatus (ow_id order) cancelled wc of
                    (Inl e, w2) \<Rightarrow> (Inl e, w2)
                  | (Inr _, w2) \<Rightarrow>
                      sweepOrders rt rest
                        (acc\<lparr>sw_cancelled := sw_cancelled acc + 1, sw_errors := errors\<rparr>) w2)
               else if list_ex cn_success results then
                 (case updateStatus (ow_id order) partially_cancelled wc of
                    (Inl e, w2) \<Rightarrow> (Inl e, w2)
                  | (Inr _, w2) \<Rightarrow>
                      sweepOrders rt rest
                        (acc\<lparr>sw_partiallyCancelled := sw_partiallyCancelled acc + 1,
                             sw_errors := errors\<rparr>) w2)
               else
                 sweepOrders rt rest
                   (acc\<lparr>sw_failed := sw_failed acc + 1, sw_errors := errors\<rparr>) wc)"
        unfolding sweepOrders.simps ids option.case list.case cd1 prod.case ..
      have unfold: "sweepOrders rt (order # rest) acc w =
        (if list_all (cancelSucceeds rt) entries then
                 (case updateStatus (ow_id order) cancelled wc of
                    (Inl e, w2) \<Rightarrow> (Inl e, w2)
                  | (Inr _, w2) \<Rightarrow>
                      sweepOrders rt rest
                        (acc\<lparr>sw_cancelled := sw_cancelled acc + 1, sw_errors := errors\<rparr>) w2)
               else if list_ex (cancelSucceeds rt) entries then
                 (case updateStatus (ow_id order) partially_cancelled wc of
                    (Inl e, w2) \<Rightarrow> (Inl e, w2)
                  | (Inr _, w2) \<Rightarrow>
                      sweepOrders rt rest
                        (acc\<lparr>sw_partiallyCancelled := sw_partiallyCancelled acc + 1,
                             sw_errors := errors\<rparr>) w2)
               else
                 sweepOrders rt rest
                   (acc\<lparr>sw_failed := sw_failed acc + 1, sw_errors := errors\<rparr>) wc)"
        unfolding step1 ae ..
      show ?thesis
      proof (cases "list_all (cancelSucceeds rt) entries")
        case True
        let ?w1 = "updateWhereId (ow_id order)
            (\<lambda>r. r\<lparr>or_status := cancelled, or_updatedAt := w_now wc div 1000\<rparr>) wc"
        let ?acc1 = "acc\<lparr>sw_cancelled := sw_cancelled acc + 1, sw_errors := errors\<rparr>"
        from updateStatus_ok [OF presentc, of cancelled]
        obtain o' where "updateStatus (ow_id order) cancelled wc = (Inr o', ?w1)" ..
        with unfold True have run: "sweepOrders rt (order # rest) acc w =
            sweepOrders rt rest ?acc1 ?w1"
          by simp
        have out: "sweepOutcome_spec rt order = Some cancelled"
          using True de by (simp add: sweepOutcome_spec_def)
        have acc: "accAfter rt order acc ?acc1"
          by (simp add: accAfter_def out keys)
        have st: "\<forall>j. rowStatus ?w1 j =
              (if j = ow_id order then map_option (statusAfter rt order) (rowStatus w j)
               else rowStatus w j)"
          by (simp add: rowStatus_setStatus statusAfter_def [abs_def] out wc_def)
        have ids: "map or_id (w_orders ?w1) = map or_id (w_orders w)"
          by (simp add: ids_setStatus wc_def)
        from run acc st ids show ?thesis by blast
      next
        case False
        show ?thesis
        proof (cases "list_ex (cancelSucceeds rt) entries")
          case True
          let ?w1 = "updateWhereId (ow_id order)
              (\<lambda>r. r\<lparr>or_status := partially_cancelled, or_updatedAt := w_now wc div 1000\<rparr>) wc"
          let ?acc1 = "acc\<lparr>sw_partiallyCancelled := sw_partiallyCancelled acc + 1,
                             sw_errors := errors\<rparr>"
          from updateStatus_ok [OF presentc, of partially_cancelled]
          obtain o' where "updateStatus (ow_id order) partially_cancelled wc = (Inr o', ?w1)" ..
          with unfold True False have run: "sweepOrders rt (order # rest) acc w =
              sweepOrders rt rest ?acc1 ?w1"
            by simp
          have out: "sweepOutcome_spec rt order = Some partially_cancelled"
            using True False de by (simp add: sweepOutcome_spec_def)
          have acc: "accAfter rt order acc ?acc1"
            by (simp add: accAfter_def out keys)
          have st: "\<forall>j. rowStatus ?w1 j =
                (if j = ow_id order then map_option (statusAfter rt order) (rowStatus w j)
                 else rowStatus w j)"
            by (simp add: rowStatus_setStatus statusAfter_def [abs_def] out wc_def)
          have ids: "map or_id (w_orders ?w1) = map or_id (w_orders w)"
            by (simp add: ids_setStatus wc_def)
          from run acc st ids show ?thesis by blast
        next
          case none: False
          let ?acc1 = "acc\<lparr>sw_failed := sw_failed acc + 1, sw_errors := errors\<rparr>"
          from unfold False none have run: "sweepOrders rt (order # rest) acc w =
              sweepOrders rt rest ?acc1 wc"
            by simp
          have out: "sweepOutcome_spec rt order = None"
            using False none de by (simp add: sweepOutcome_spec_def)
          have acc: "accAfter rt order acc ?acc1"
            by (simp add: accAfter_def out keys)
          have st: "\<forall>j. rowStatus wc j =
                (if j = ow_id order then map_option (statusAfter rt order) (rowStatus w j)
                 else rowStatus w j)"
            by (simp add: statusAfter_def [abs_def] out wc_def option.map_ident)
          have ids: "map or_id (w_orders wc) = map or_id (w_orders w)"
            by (simp add: wc_def)
          from run acc st ids show ?thesis by blast
        qed
      qed
    qed
  qed
qed


lemma find_distinct:
  "distinct (map f xs) \<Longrightarrow> x \<in> set xs \<Longrightarrow> find (\<lambda>y. f y = f x) xs = Some x"
  by (induction xs) (auto simp: image_iff)

lemma find_absent: "i \<notin> f ` set xs \<Longrightarrow> find (\<lambda>y. f y = i) xs = None"
  by (induction xs) auto

lemma sweepOrders_all:
  assumes "distinct (map ow_id os)" "\<forall>order\<in>set os. ow_id order \<in> or_id ` set (w_orders w)"
  shows "\<exists>acc' w'. sweepOrders rt os acc w = (Inr acc', w') \<and>
     sw_cancelled acc' =
       sw_cancelled acc + length (filter (\<lambda>order. sweepOutcome_spec rt order = Some cancelled) os) \<and>
     sw_partiallyCancelled acc' =
       sw_partiallyCancelled acc +
         length (filter (\<lambda>order. sweepOutcome_spec rt order = Some partially_cancelled) os) \<and>
     sw_failed acc' =
       sw_failed acc + length (filter (\<lambda>order. sweepOutcome_spec rt order = None) os) \<and>
     map errorKey (sw_errors acc') =
       map errorKey (sw_errors acc) @ concat (map (failedCancellations rt) os) \<and>
     map or_id (w_orders w') = map or_id (w_orders w) \<and>
     (\<forall>j. rowStatus w' j =
        (case find (\<lambda>order. ow_id order = j) os of
           None \<Rightarrow> rowStatus w j
         | Some order \<Rightarrow> map_option (statusAfter rt order) (rowStatus w j)))"
  using assms
proof (induction os arbitrary: acc w)
  case Nil
  show ?case by simp
next
  case (Cons order rest)
  from Cons.prems have present: "ow_id order \<in> or_id ` set (w_orders w)" by simp
  from sweepOrders_step [OF present, of rt rest acc]
  obtain acc1 w1 where step:
    "sweepOrders rt (order # rest) acc w = sweepOrders rt rest acc1 w1"
    "accAfter rt order acc acc1"
    "map or_id (w_orders w1) = map or_id (w_orders w)"
    "\<forall>j. rowStatus w1 j =
        (if j = ow_id order then map_option (statusAfter rt order) (rowStatus w j)
         else rowStatus w j)"
    by blast
  from step(3) have "set (map or_id (w_orders w1)) = set (map or_id (w_orders w))" by simp
  then have same: "or_id ` set (w_orders w1) = or_id ` set (w_orders w)" by simp
  from Cons.prems have d: "distinct (map ow_id rest)"
    and p: "\<forall>o'\<in>set rest. ow_id o' \<in> or_id ` set (w_orders w1)"
    by (simp_all add: same)
  from Cons.IH [OF d p, of acc1]
  obtain acc' w' where ih:
    "sweepOrders rt rest acc1 w1 = (Inr acc', w')"
    "sw_cancelled acc' =
       sw_cancelled acc1 + length (filter (\<lambda>order. sweepOutcome_spec rt order = Some cancelled) rest)"
    "sw_partiallyCancelled acc' =
       sw_partiallyCancelled acc1 +
         length (filter (\<lambda>order. sweepOutcome_spec rt order = Some partially_cancelled) rest)"
    "sw_failed acc' =
       sw_failed acc1 + length (filter (\<lambda>order. sweepOutcome_spec rt order = None) rest)"
    "map errorKey (sw_errors acc') =
       map errorKey (sw_errors acc1) @ concat (map (failedCancellations rt) rest)"
    "map or_id (w_orders w') = map or_id (w_orders w1)"
    "\<forall>j. rowStatus w' j =
        (case find (\<lambda>order. ow_id order = j) rest of
           None \<Rightarrow> rowStatus w1 j
         | Some order \<Rightarrow> map_option (statusAfter rt order) (rowStatus w1 j))"
    by blast
  from Cons.prems(1) have notin: "ow_id order \<notin> ow_id ` set rest" by simp
  have status: "rowStatus w' j =
        (case find (\<lambda>o'. ow_id o' = j) (order # rest) of
           None \<Rightarrow> rowStatus w j
         | Some o' \<Rightarrow> map_option (statusAfter rt o') (rowStatus w j))" for j
  proof (cases "j = ow_id order")
    case True
    with find_absent [OF notin] have "find (\<lambda>o'. ow_id o' = j) rest = None" by simp
    with ih(7) step(4) True show ?thesis by simp
  next
    case False
    with step(4) have "rowStatus w1 j = rowStatus w j" by simp
    with ih(7) False show ?thesis by (simp split: option.splits)
  qed
  from step(2) have counts:
    "sw_cancelled acc1 =
       sw_cancelled acc + (if sweepOutcome_spec rt order = Some cancelled then 1 else 0)"
    "sw_partiallyCancelled acc1 =
       sw_partiallyCancelled acc +
         (if sweepOutcome_spec rt order = Some partially_cancelled then 1 else 0)"
    "sw_failed acc1 = sw_failed acc + (if sweepOutcome_spec rt order = None then 1 else 0)"
    "map errorKey (sw_errors acc1) = map errorKey (sw_errors acc) @ failedCancellations rt order"
    by (simp_all add: accAfter_def)
  show ?case
    apply (rule exI [of _ acc'], rule exI [of _ w'])
    using step(1,3) ih(1-6) counts status
    by simp
qed


lemma status_findOrderById: "map_option ow_status (findOrderById w i) = rowStatus w i"
  by (cases "find (\<lambda>r. or_id r = i) (w_orders w)")
    (simp_all add: findOrderById_def rowStatus_def rowToOrder_def)

lemma abandoned_rows:
  "\<exists>rows. findAbandonedDrafts h w = map rowToOrder rows \<and>
     set rows \<subseteq> {r \<in> set (w_orders w). or_status r = draft_created} \<and>
     (distinct (map or_id (w_orders w)) \<longrightarrow> distinct (map or_id rows))"
proof -
  define cutoff where "cutoff = w_now w - h * 60 * 60 * 1000"
  define drafts where "drafts = filter (\<lambda>r. or_status r = draft_created) (w_orders w)"
  define rows where "rows = filter (\<lambda>order. or_createdAt order * 1000 < cutoff)
      (rev (sort_key or_createdAt drafts))"
  have eq: "findAbandonedDrafts h w = map rowToOrder rows"
    by (simp add: findAbandonedDrafts_def Let_def rows_def drafts_def cutoff_def)
  have sub: "set rows \<subseteq> {r \<in> set (w_orders w). or_status r = draft_created}"
    by (auto simp: rows_def drafts_def)
  have dist: "distinct (map or_id rows)" if "distinct (map or_id (w_orders w))"
  proof -
    from that have "distinct (map or_id drafts)"
      unfolding drafts_def by (rule distinct_map_filter)
    then have "distinct (sort_key or_createdAt drafts) \<and>
        inj_on or_id (set (sort_key or_createdAt drafts))"
      by (simp add: distinct_map)
    then have "distinct (map or_id (rev (sort_key or_createdAt drafts)))"
      by (simp add: distinct_map)
    then show ?thesis
      unfolding rows_def by (rule distinct_map_filter)
  qed
  from eq sub dist show ?thesis by blast
qed

lemma sweep_run_result:
  "fst (cleanupAbandonedDrafts sweep_runtime 24 sweep_world) =
     Inr \<lparr>cr_totalProcessed = 4, cr_cancelled = 2, cr_partiallyCancelled = 1, cr_failed = 1,
           cr_errors =
             [\<lparr>ce_orderId = ''o3'', ce_provider = ''gelato'', ce_error = ''already shipped''\<rparr>,
              \<lparr>ce_orderId = ''o2'', ce_provider = ''gelato'', ce_error = ''already shipped''\<rparr>]\<rparr>"
  by (simp add: sweep_defs)

lemma sweep_run_statuses:
  "map (\<lambda>r. (or_id r, or_status r))
     (w_orders (snd (cleanupAbandonedDrafts sweep_runtime 24 sweep_world))) =
     [(''o1'', cancelled), (''o2'', partially_cancelled), (''o3'', draft_created),
      (''o4'', cancelled), (''o5'', draft_created)]"
  by (simp add: sweep_defs)

section \<open>Claims\<close>

text \<open>
  C2. For every successful \<^verbatim>\<open>getQuote\<close> result, \<open>total\<close> is \<open>subtotal\<close> plus
  \<open>shippingCost\<close>, and \<open>shippingCost\<close> is the sum over all entries of the provider
  breakdown of the cost of the selected shipping option, the entry of the \<^verbatim>\<open>manual\<close>
  bucket contributing zero.
\<close>

theorem quote_total_and_shipping:
  assumes "getQuote productStore (createMarketplaceRuntime printful gelato stripe) items address
             = (Inr q, calls)"
  shows "q_total q = q_subtotal q + q_shippingCost q \<and>
         q_shippingCost q =
           (\<Sum>b\<leftarrow>q_providerBreakdown q. so_shippingCost (pb_selectedShipping b)) \<and>
         (\<forall>b\<in>set (q_providerBreakdown q).
            pb_provider b = ''manual'' \<longrightarrow> so_shippingCost (pb_selectedShipping b) = 0)"
proof -
  let ?rt = "createMarketplaceRuntime printful gelato stripe"
  from assms obtain bs sub new where
    entries: "list_all2 (\<lambda>b e. bucketEntry ?rt address b = Inr e) bs new"
    and q: "q_providerBreakdown q = new"
      "q_shippingCost q = sum_list (map (\<lambda>b. so_shippingCost (pb_selectedShipping b)) new)"
      "q_total q = q_subtotal q + q_shippingCost q"
    by (rule getQuote_Inr)
  have "so_shippingCost (pb_selectedShipping e) = 0"
    if "e \<in> set new" "pb_provider e = ''manual''" for e
  proof -
    from list_all2_right [OF entries that(1)]
    obtain b where "bucketEntry ?rt address b = Inr e" by blast
    from bucketEntry_manual(1) [OF this getProvider_manual that(2)]
    show ?thesis by (simp add: manualShipping_def)
  qed
  with q show ?thesis by simp
qed


theorem quote_total_and_shipping_witness:
  "getQuote demo_catalog (createMarketplaceRuntime (Some printful_two_rates) None None)
        [cartItem ''shirt-1'' 1, cartItem ''manual-1'' 2] demo_address
     = (Inr \<lparr>q_subtotal = 45, q_shippingCost = 5, q_total = 50, q_currency = ''USD'',
             q_providerBreakdown =
               [\<lparr>pb_provider = ''printful'', pb_itemCount = 1, pb_subtotal = 25,
                 pb_selectedShipping = toShippingOption ''printful'' rate_r1,
                 pb_availableRates = [toShippingOption ''printful'' rate_r1,
                                      toShippingOption ''printful'' rate_r2]\<rparr>,
                \<lparr>pb_provider = ''manual'', pb_itemCount = 1, pb_subtotal = 20,
                 pb_selectedShipping = manualShipping,
                 pb_availableRates = [manualShipping]\<rparr>],
             q_estimatedDelivery = Some (3, 10)\<rparr>,
        [QuoteOrderCall ''printful''
           (quoteRequest demo_address [itemGroup shirt (cartItem ''shirt-1'' 1)])])
   \<and> (50::real) = 45 + 5
   \<and> (5::real) = so_shippingCost (toShippingOption ''printful'' rate_r1)
                   + so_shippingCost manualShipping
   \<and> so_shippingCost manualShipping = 0"
proof -
  have run: "getQuote demo_catalog (createMarketplaceRuntime (Some printful_two_rates) None None)
        [cartItem ''shirt-1'' 1, cartItem ''manual-1'' 2] demo_address
     = (Inr \<lparr>q_subtotal = 45, q_shippingCost = 5, q_total = 50, q_currency = ''USD'',
             q_providerBreakdown =
               [\<lparr>pb_provider = ''printful'', pb_itemCount = 1, pb_subtotal = 25,
                 pb_selectedShipping = toShippingOption ''printful'' rate_r1,
                 pb_availableRates = [toShippingOption ''printful'' rate_r1,
                                      toShippingOption ''printful'' rate_r2]\<rparr>,
                \<lparr>pb_provider = ''manual'', pb_itemCount = 1, pb_subtotal = 20,
                 pb_selectedShipping = manualShipping,
                 pb_availableRates = [manualShipping]\<rparr>],
             q_estimatedDelivery = Some (3, 10)\<rparr>,
        [QuoteOrderCall ''printful''
           (quoteRequest demo_address [itemGroup shirt (cartItem ''shirt-1'' 1)])])"
    by (simp add: quote_defs demo_defs)
  from quote_total_and_shipping [OF run] show ?thesis
    using run by simp
qed


text \<open>
  C3. For every provider breakdown of a successful \<^verbatim>\<open>getQuote\<close> result the selected
  shipping option is one of the available rates and its cost is the minimum cost over the
  available rates. In particular a bucket whose provider returns the two rates \<open>r1\<close> at 5
  and \<open>r2\<close> at 8 has \<open>r1\<close> selected and contributes 5.
\<close>

theorem cheapest_rate_is_selected:
  assumes "getQuote productStore runtime items address = (Inr q, calls)"
  shows "(\<forall>b\<in>set (q_providerBreakdown q).
            pb_selectedShipping b \<in> set (pb_availableRates b) \<and>
            so_shippingCost (pb_selectedShipping b) =
              Min (so_shippingCost ` set (pb_availableRates b))) \<and>
         (\<forall>bs sub providerName providerItems provider r1 r2.
            resolveItems productStore items [] 0 = Inr (bs, sub) \<and>
            (providerName, providerItems) \<in> set bs \<and>
            getProvider runtime providerName = Some provider \<and>
            quoteOrder (fp_client provider) (quoteRequest address providerItems) = Inr [r1, r2] \<and>
            sr_rate r1 = 5 \<and> sr_rate r2 = 8 \<longrightarrow>
            (\<exists>b\<in>set (q_providerBreakdown q).
               pb_provider b = providerName \<and>
               so_rateId (pb_selectedShipping b) = sr_id r1 \<and>
               so_shippingCost (pb_selectedShipping b) = 5))"
proof -
  from assms obtain bs sub new where
    res: "resolveItems productStore items [] 0 = Inr (bs, sub)"
    and entries: "list_all2 (\<lambda>b e. bucketEntry runtime address b = Inr e) bs new"
    and q: "q_providerBreakdown q = new"
    by (rule getQuote_Inr)
  have general: "pb_selectedShipping e \<in> set (pb_availableRates e) \<and>
      so_shippingCost (pb_selectedShipping e) = Min (so_shippingCost ` set (pb_availableRates e))"
    if "e \<in> set new" for e
  proof -
    from list_all2_right [OF entries that]
    obtain b where "bucketEntry runtime address b = Inr e" by blast
    from bucketEntry_ok(2) [OF this] show ?thesis by (simp add: entry_ok_def)
  qed
  have scenario: "\<exists>e\<in>set new. pb_provider e = providerName \<and>
      so_rateId (pb_selectedShipping e) = sr_id r1 \<and> so_shippingCost (pb_selectedShipping e) = 5"
    if "(providerName, providerItems) \<in> set bs"
      "getProvider runtime providerName = Some provider"
      "quoteOrder (fp_client provider) (quoteRequest address providerItems) = Inr [r1, r2]"
      "sr_rate r1 = 5" "sr_rate r2 = 8"
    for providerName providerItems provider r1 r2
  proof -
    from list_all2_left [OF entries that(1)]
    obtain e where e: "e \<in> set new" "bucketEntry runtime address (providerName, providerItems) = Inr e"
      by blast
    from e(2) that(2-5) have "pb_provider e = providerName \<and>
      so_rateId (pb_selectedShipping e) = sr_id r1 \<and> so_shippingCost (pb_selectedShipping e) = 5"
      by (auto simp: bucketEntry_def cheapestRate_def toShippingOption_def)
    with e(1) show ?thesis by blast
  qed
  from res have same: "bs' = bs" if "resolveItems productStore items [] 0 = Inr (bs', sub')"
    for bs' sub' using that by simp
  show ?thesis
  proof (intro conjI allI impI ballI)
    fix b assume "b \<in> set (q_providerBreakdown q)"
    with general q show "pb_selectedShipping b \<in> set (pb_availableRates b)" by simp
  next
    fix b assume "b \<in> set (q_providerBreakdown q)"
    with general q show "so_shippingCost (pb_selectedShipping b) =
              Min (so_shippingCost ` set (pb_availableRates b))" by simp
  next
    fix bs' sub' providerName providerItems provider r1 r2
    assume h: "resolveItems productStore items [] 0 = Inr (bs', sub') \<and>
            (providerName, providerItems) \<in> set bs' \<and>
            getProvider runtime providerName = Some provider \<and>
            quoteOrder (fp_client provider) (quoteRequest address providerItems) = Inr [r1, r2] \<and>
            sr_rate r1 = 5 \<and> sr_rate r2 = 8"
    then have "bs' = bs" using same by blast
    with h scenario [of providerName providerItems provider r1 r2] q
    show "\<exists>b\<in>set (q_providerBreakdown q).
               pb_provider b = providerName \<and>
               so_rateId (pb_selectedShipping b) = sr_id r1 \<and>
               so_shippingCost (pb_selectedShipping b) = 5"
      by simp
  qed
qed

theorem cheapest_rate_is_selected_witness:
  "getQuote demo_catalog (createMarketplaceRuntime (Some printful_two_rates) None None)
        [cartItem ''shirt-1'' 1] demo_address
     = (Inr \<lparr>q_subtotal = 25, q_shippingCost = 5, q_total = 30, q_currency = ''USD'',
             q_providerBreakdown =
               [\<lparr>pb_provider = ''printful'', pb_itemCount = 1, pb_subtotal = 25,
                 pb_selectedShipping = toShippingOption ''printful'' rate_r1,
                 pb_availableRates = [toShippingOption ''printful'' rate_r1,
                                      toShippingOption ''printful'' rate_r2]\<rparr>],
             q_estimatedDelivery = Some (3, 7)\<rparr>,
        [QuoteOrderCall ''printful''
           (quoteRequest demo_address [itemGroup shirt (cartItem ''shirt-1'' 1)])])
   \<and> quoteOrder printful_two_rates
         (quoteRequest demo_address [itemGroup shirt (cartItem ''shirt-1'' 1)])
       = Inr [rate_r1, rate_r2]
   \<and> sr_id rate_r1 = ''r1'' \<and> sr_rate rate_r1 = 5 \<and> sr_id rate_r2 = ''r2'' \<and> sr_rate rate_r2 = 8
   \<and> toShippingOption ''printful'' rate_r1
        \<in> set [toShippingOption ''printful'' rate_r1, toShippingOption ''printful'' rate_r2]
   \<and> so_shippingCost (toShippingOption ''printful'' rate_r1)
        = Min (so_shippingCost `
               set [toShippingOption ''printful'' rate_r1, toShippingOption ''printful'' rate_r2])
   \<and> so_rateId (toShippingOption ''printful'' rate_r1) = ''r1''
   \<and> so_shippingCost (toShippingOption ''printful'' rate_r1) = 5"
proof -
  note inst = cheapest_rate_is_selected [OF printful_quote_run]
  have rates: "quoteOrder printful_two_rates
         (quoteRequest demo_address [itemGroup shirt (cartItem ''shirt-1'' 1)])
       = Inr [rate_r1, rate_r2]"
    by (simp add: printful_two_rates_def clientWith_def)
  have vals: "sr_id rate_r1 = ''r1''" "sr_rate rate_r1 = 5" "sr_id rate_r2 = ''r2''"
    "sr_rate rate_r2 = 8"
    by (simp_all add: rate_r1_def rate_r2_def)
  from inst [THEN conjunct1] have general:
    "toShippingOption ''printful'' rate_r1
        \<in> set [toShippingOption ''printful'' rate_r1, toShippingOption ''printful'' rate_r2]
     \<and> so_shippingCost (toShippingOption ''printful'' rate_r1)
        = Min (so_shippingCost `
               set [toShippingOption ''printful'' rate_r1, toShippingOption ''printful'' rate_r2])"
    by simp
  from inst [THEN conjunct2, rule_format,
      of "[(''printful'', [itemGroup shirt (cartItem ''shirt-1'' 1)])]" 25 "''printful''"
         "[itemGroup shirt (cartItem ''shirt-1'' 1)]"
         "\<lparr>fp_name = ''printful'', fp_client = printful_two_rates\<rparr>" rate_r1 rate_r2]
  have "so_rateId (toShippingOption ''printful'' rate_r1) = ''r1''
      \<and> so_shippingCost (toShippingOption ''printful'' rate_r1) = 5"
    using shirt_cart_buckets printful_configured rates vals by simp
  with general rates vals printful_quote_run show ?thesis by blast
qed


text \<open>
  C9, as the code has it. For every successful \<^verbatim>\<open>getQuote\<close> result the delivery estimate
  is present exactly when some selected rate reports \<open>minDeliveryDays\<close> and some selected
  rate reports \<open>maxDeliveryDays\<close>; it is then the least reported minimum and the greatest
  reported maximum over the selected rates of all buckets.
\<close>

theorem delivery_estimate_window:
  assumes "getQuote productStore runtime items address = (Inr q, calls)"
  shows "q_estimatedDelivery q =
    (let mins = List.map_filter (\<lambda>b. so_minDeliveryDays (pb_selectedShipping b))
                  (q_providerBreakdown q);
         maxs = List.map_filter (\<lambda>b. so_maxDeliveryDays (pb_selectedShipping b))
                  (q_providerBreakdown q)
     in if mins = [] \<or> maxs = [] then None else Some (Min (set mins), Max (set maxs)))"
proof -
  from assms obtain new where
    q: "q_providerBreakdown q = new"
    and est: "q_estimatedDelivery q =
       (case (foldl lowerDays None (map (\<lambda>b. so_minDeliveryDays (pb_selectedShipping b)) new),
              foldl raiseDays None (map (\<lambda>b. so_maxDeliveryDays (pb_selectedShipping b)) new)) of
          (Some lo, Some hi) \<Rightarrow> Some (lo, hi) | _ \<Rightarrow> None)"
    by (rule getQuote_Inr)
  show ?thesis
    unfolding est q
    by (simp add: foldl_lowerDays_None foldl_raiseDays_None reported_map Let_def)
qed

theorem delivery_estimate_window_witness:
  "getQuote demo_catalog (createMarketplaceRuntime (Some printful_two_rates) None None)
        [cartItem ''shirt-1'' 1, cartItem ''manual-1'' 2] demo_address
     = (Inr \<lparr>q_subtotal = 45, q_shippingCost = 5, q_total = 50, q_currency = ''USD'',
             q_providerBreakdown =
               [\<lparr>pb_provider = ''printful'', pb_itemCount = 1, pb_subtotal = 25,
                 pb_selectedShipping = toShippingOption ''printful'' rate_r1,
                 pb_availableRates = [toShippingOption ''printful'' rate_r1,
                                      toShippingOption ''printful'' rate_r2]\<rparr>,
                \<lparr>pb_provider = ''manual'', pb_itemCount = 1, pb_subtotal = 20,
                 pb_selectedShipping = manualShipping,
                 pb_availableRates = [manualShipping]\<rparr>],
             q_estimatedDelivery = Some (3, 10)\<rparr>,
        [QuoteOrderCall ''printful''
           (quoteRequest demo_address [itemGroup shirt (cartItem ''shirt-1'' 1)])])
   \<and> Some (3::real, 10::real) = Some (Min (set [3, 5]), Max (set [7, 10]))"
proof -
  from delivery_estimate_window [OF demo_quote_run]
  have "Some (3::real, 10::real) = Some (Min (set [3, 5]), Max (set [7, 10]))"
    by (simp add: List.map_filter_simps manualShipping_def rate_r1_def)
  with demo_quote_run show ?thesis by blast
qed


text \<open>
  C9 as stated fails: the only bucket reports a lower day bound (3) and no upper bound, and
  the quote carries no delivery estimate.
\<close>

theorem estimate_absent_counterexample:
  "getQuote demo_catalog (createMarketplaceRuntime (Some printful_min_only) None None)
        [cartItem ''shirt-1'' 1] demo_address
     = (Inr \<lparr>q_subtotal = 25, q_shippingCost = 5, q_total = 30, q_currency = ''USD'',
             q_providerBreakdown =
               [\<lparr>pb_provider = ''printful'', pb_itemCount = 1, pb_subtotal = 25,
                 pb_selectedShipping =
                   \<lparr>so_provider = ''printful'', so_rateId = ''r3'', so_rateName = ''Economy'',
                    so_shippingCost = 5, so_currency = ''USD'',
                    so_minDeliveryDays = Some 3, so_maxDeliveryDays = None\<rparr>,
                 pb_availableRates =
                   [\<lparr>so_provider = ''printful'', so_rateId = ''r3'', so_rateName = ''Economy'',
                     so_shippingCost = 5, so_currency = ''USD'',
                     so_minDeliveryDays = Some 3, so_maxDeliveryDays = None\<rparr>]\<rparr>],
             q_estimatedDelivery = None\<rparr>,
        [QuoteOrderCall ''printful''
           (quoteRequest demo_address [itemGroup shirt (cartItem ''shirt-1'' 1)])])"
  by (simp add: quote_defs demo_defs demo_defs2)


text \<open>
  C5, as the code has it. \<^verbatim>\<open>getQuote\<close> fails exactly when some cart item resolves to no
  product, or some bucket other than \<^verbatim>\<open>manual\<close> has a provider that is not configured, or
  the \<^verbatim>\<open>quoteOrder\<close> call of a configured provider returns no rate, or that call itself
  fails. A failure is an error and carries no quote.
\<close>

theorem getQuote_fails_iff:
  "isl (fst (getQuote productStore runtime items address)) \<longleftrightarrow>
     (\<exists>item\<in>set items. productStore (qi_productId item) = None) \<or>
     (\<exists>bs sub. resolveItems productStore items [] 0 = Inr (bs, sub) \<and>
        (\<exists>(providerName, providerItems)\<in>set bs.
           (providerName \<noteq> ''manual'' \<and> getProvider runtime providerName = None) \<or>
           (\<exists>provider. getProvider runtime providerName = Some provider \<and>
              (quoteOrder (fp_client provider) (quoteRequest address providerItems) = Inr [] \<or>
               (\<exists>message. quoteOrder (fp_client provider) (quoteRequest address providerItems)
                             = Inl message)))))"
proof -
  define P where "P = (\<lambda>bs. \<exists>(providerName, providerItems)\<in>set bs.
           (providerName \<noteq> ''manual'' \<and> getProvider runtime providerName = None) \<or>
           (\<exists>provider. getProvider runtime providerName = Some provider \<and>
              (quoteOrder (fp_client provider) (quoteRequest address providerItems) = Inr [] \<or>
               (\<exists>message. quoteOrder (fp_client provider) (quoteRequest address providerItems)
                             = Inl message))))"
  define A where "A \<longleftrightarrow> (\<exists>item\<in>set items. productStore (qi_productId item) = None)"
  define L where "L \<longleftrightarrow> isl (fst (getQuote productStore runtime items address))"
  have "L \<longleftrightarrow> A \<or> (\<exists>bs sub. resolveItems productStore items [] 0 = Inr (bs, sub) \<and> P bs)"
  proof (cases "resolveItems productStore items [] 0")
    case (Inl e)
    then have "isl (resolveItems productStore items [] 0)" by simp
    then have A unfolding A_def by (simp add: resolveItems_isl)
    moreover have L
      unfolding L_def using Inl by (simp add: getQuote_def)
    ultimately show ?thesis by blast
  next
    case (Inr r)
    obtain bs sub where r: "r = (bs, sub)" by (cases r)
    from Inr have "\<not> isl (resolveItems productStore items [] 0)" by simp
    then have notA: "\<not> A" unfolding A_def by (simp add: resolveItems_isl)
    define acc0 where "acc0 = \<lparr>qa_providerBreakdown = [], qa_totalShippingCost = 0,
                   qa_minDeliveryDays = None, qa_maxDeliveryDays = None\<rparr>"
    have "L \<longleftrightarrow> isl (fst (quoteBuckets runtime address bs acc0 []))"
      unfolding L_def using Inr r
      by (auto simp: getQuote_def acc0_def split: prod.splits sum.splits)
    also have "\<dots> \<longleftrightarrow> isl (bucketEntries runtime address bs)"
      by (simp add: quoteBuckets_fst split: sum.splits)
    also have "\<dots> \<longleftrightarrow> (\<exists>b\<in>set bs. isl (bucketEntry runtime address b))"
      by (rule bucketEntries_Inl)
    also have "\<dots> \<longleftrightarrow> P bs"
      unfolding P_def by (intro bex_cong refl) (auto simp: bucketEntry_isl)
    finally have main: "L \<longleftrightarrow> P bs" .
    have "(\<exists>bs' sub'. resolveItems productStore items [] 0 = Inr (bs', sub') \<and> P bs') \<longleftrightarrow> P bs"
      using Inr r by auto
    with main notA show ?thesis by blast
  qed
  then show ?thesis unfolding L_def A_def P_def .
qed

theorem getQuote_fails_iff_witness:
  "resolveItems demo_catalog [cartItem ''shirt-1'' 1] [] 0 =
     Inr ([(''printful'', [itemGroup shirt (cartItem ''shirt-1'' 1)])], 25)
   \<and> getProvider (createMarketplaceRuntime (Some printful_down) None None) ''printful''
       = Some \<lparr>fp_name = ''printful'', fp_client = printful_down\<rparr>
   \<and> quoteOrder printful_down
         (quoteRequest demo_address [itemGroup shirt (cartItem ''shirt-1'' 1)]) = Inl ''timeout''
   \<and> isl (fst (getQuote demo_catalog (createMarketplaceRuntime (Some printful_down) None None)
                  [cartItem ''shirt-1'' 1] demo_address))"
proof -
  have call: "quoteOrder printful_down
         (quoteRequest demo_address [itemGroup shirt (cartItem ''shirt-1'' 1)]) = Inl ''timeout''"
    by (simp add: printful_down_def clientWith_def)
  have "isl (fst (getQuote demo_catalog (createMarketplaceRuntime (Some printful_down) None None)
                  [cartItem ''shirt-1'' 1] demo_address))"
    unfolding getQuote_fails_iff [of demo_catalog
        "createMarketplaceRuntime (Some printful_down) None None" "[cartItem ''shirt-1'' 1]"
        demo_address]
    using shirt_cart_buckets printful_configured [of printful_down None None] call
    by simp
  with shirt_cart_buckets printful_configured call show ?thesis by blast
qed


text \<open>
  C5 as stated fails: every product resolves, printful is configured and does not answer
  with an empty rate list, and the quote fails all the same, because the call to printful
  throws.
\<close>

theorem quote_fails_on_gateway_error_counterexample:
  "fst (getQuote demo_catalog (createMarketplaceRuntime (Some printful_down) None None)
          [cartItem ''shirt-1'' 1] demo_address) = Inl (QuoteFailed ''printful'' ''timeout'')
   \<and> demo_catalog (qi_productId (cartItem ''shirt-1'' 1)) = Some shirt
   \<and> resolveItems demo_catalog [cartItem ''shirt-1'' 1] [] 0 =
       Inr ([(''printful'', [itemGroup shirt (cartItem ''shirt-1'' 1)])], 25)
   \<and> getProvider (createMarketplaceRuntime (Some printful_down) None None) ''printful''
       = Some \<lparr>fp_name = ''printful'', fp_client = printful_down\<rparr>
   \<and> quoteOrder printful_down
         (quoteRequest demo_address [itemGroup shirt (cartItem ''shirt-1'' 1)]) \<noteq> Inr []"
  by (simp add: quote_defs demo_defs demo_defs2)


text \<open>
  C6. For a cart of one or more items that are all fulfilled by \<^verbatim>\<open>manual\<close>, \<^verbatim>\<open>getQuote\<close>
  calls no gateway and returns one breakdown entry, whose only available rate is the
  zero-cost \<^verbatim>\<open>manual-standard\<close> rate "Standard Shipping" with a 5 to 10 day estimate. For
  the cart of two units of \<^verbatim>\<open>manual-1\<close> at unit price 10 the subtotal is 20, the shipping
  cost 0 and the total 20.
\<close>

theorem manual_only_quote:
  assumes "items \<noteq> []"
    and "\<forall>item\<in>set items. \<exists>product. productStore (qi_productId item) = Some product \<and>
           providerOf product = ''manual''"
  shows "\<exists>q. getQuote productStore (createMarketplaceRuntime printful gelato stripe) items address
               = (Inr q, []) \<and>
           (\<exists>b. q_providerBreakdown q = [b] \<and> pb_provider b = ''manual'' \<and>
                pb_itemCount b = length items \<and>
                so_rateId (pb_selectedShipping b) = ''manual-standard'' \<and>
                pb_availableRates b =
                  [\<lparr>so_provider = ''manual'', so_rateId = ''manual-standard'',
                    so_rateName = ''Standard Shipping'', so_shippingCost = 0,
                    so_currency = ''USD'', so_minDeliveryDays = Some 5,
                    so_maxDeliveryDays = Some 10\<rparr>]) \<and>
           q_subtotal q =
             (\<Sum>item\<leftarrow>items. pig_price (itemGroup (the (productStore (qi_productId item))) item)
                               * of_int (qi_quantity item)) \<and>
           q_shippingCost q = 0 \<and> q_total q = q_subtotal q \<and>
           (\<forall>product variantId.
              items = [\<lparr>qi_productId = ''manual-1'', qi_variantId = variantId, qi_quantity = 2\<rparr>] \<and>
              productStore ''manual-1'' = Some product \<and>
              pig_price (itemGroup product (hd items)) = 10 \<longrightarrow>
              q_subtotal q = 20 \<and> q_shippingCost q = 0 \<and> q_total q = 20)"
proof -
  let ?rt = "createMarketplaceRuntime printful gelato stripe"
  let ?gs = "map (\<lambda>item. itemGroup (the (productStore (qi_productId item))) item) items"
  let ?sub = "\<Sum>item\<leftarrow>items. pig_price (itemGroup (the (productStore (qi_productId item))) item)
                               * of_int (qi_quantity item)"
  let ?q = "\<lparr>q_subtotal = ?sub, q_shippingCost = 0, q_total = ?sub, q_currency = ''USD'',
             q_providerBreakdown =
               [\<lparr>pb_provider = ''manual'', pb_itemCount = length items,
                 pb_subtotal = groupSubtotal ?gs,
                 pb_selectedShipping = manualShipping, pb_availableRates = [manualShipping]\<rparr>],
             q_estimatedDelivery = Some (5, 10)\<rparr>"
  have res: "resolveItems productStore items [] 0 = Inr ([(''manual'', ?gs)], ?sub)"
    by (rule resolveItems_one_provider_start [OF assms])
  have run: "getQuote productStore ?rt items address = (Inr ?q, [])"
    by (simp add: getQuote_def res lowerDays_def raiseDays_def manualShipping_def)
  show ?thesis
  proof (intro exI [of _ ?q] conjI)
    show "getQuote productStore ?rt items address = (Inr ?q, [])" by (rule run)
    show "\<exists>b. q_providerBreakdown ?q = [b] \<and> pb_provider b = ''manual'' \<and>
                pb_itemCount b = length items \<and>
                so_rateId (pb_selectedShipping b) = ''manual-standard'' \<and>
                pb_availableRates b =
                  [\<lparr>so_provider = ''manual'', so_rateId = ''manual-standard'',
                    so_rateName = ''Standard Shipping'', so_shippingCost = 0,
                    so_currency = ''USD'', so_minDeliveryDays = Some 5,
                    so_maxDeliveryDays = Some 10\<rparr>]"
      by (simp add: manualShipping_def)
    show "\<forall>product variantId.
              items = [\<lparr>qi_productId = ''manual-1'', qi_variantId = variantId, qi_quantity = 2\<rparr>] \<and>
              productStore ''manual-1'' = Some product \<and>
              pig_price (itemGroup product (hd items)) = 10 \<longrightarrow>
              q_subtotal ?q = 20 \<and> q_shippingCost ?q = 0 \<and> q_total ?q = 20"
      by auto
  qed simp_all
qed

theorem manual_only_quote_witness:
  "[cartItem ''manual-1'' 2] \<noteq> []
   \<and> demo_catalog ''manual-1'' = Some mug \<and> providerOf mug = ''manual''
   \<and> pig_price (itemGroup mug (cartItem ''manual-1'' 2)) = 10
   \<and> getQuote demo_catalog (createMarketplaceRuntime (Some printful_two_rates) None None)
        [cartItem ''manual-1'' 2] demo_address =
      (Inr \<lparr>q_subtotal = 20, q_shippingCost = 0, q_total = 20, q_currency = ''USD'',
             q_providerBreakdown =
               [\<lparr>pb_provider = ''manual'', pb_itemCount = 1, pb_subtotal = 20,
                 pb_selectedShipping = manualShipping, pb_availableRates = [manualShipping]\<rparr>],
             q_estimatedDelivery = Some (5, 10)\<rparr>, [])"
proof -
  have nonempty: "[cartItem ''manual-1'' 2] \<noteq> []" by simp
  have facts: "demo_catalog ''manual-1'' = Some mug" "providerOf mug = ''manual''"
    "pig_price (itemGroup mug (cartItem ''manual-1'' 2)) = 10"
    by (simp_all add: quote_defs demo_defs)
  have manual: "\<forall>item\<in>set [cartItem ''manual-1'' 2]. \<exists>product.
      demo_catalog (qi_productId item) = Some product \<and> providerOf product = ''manual''"
    using facts by (simp add: cartItem_def)
  note inst =
    manual_only_quote [OF nonempty manual, of "Some printful_two_rates" None None demo_address]
  have run: "getQuote demo_catalog (createMarketplaceRuntime (Some printful_two_rates) None None)
        [cartItem ''manual-1'' 2] demo_address =
      (Inr \<lparr>q_subtotal = 20, q_shippingCost = 0, q_total = 20, q_currency = ''USD'',
             q_providerBreakdown =
               [\<lparr>pb_provider = ''manual'', pb_itemCount = 1, pb_subtotal = 20,
                 pb_selectedShipping = manualShipping, pb_availableRates = [manualShipping]\<rparr>],
             q_estimatedDelivery = Some (5, 10)\<rparr>, [])"
    by (simp add: quote_defs demo_defs)
  from inst run nonempty facts show ?thesis by simp
qed


text \<open>
  C1, as the code has it. When \<^verbatim>\<open>createCheckout\<close> runs on a cart with two provider buckets
  and the \<^verbatim>\<open>createOrder\<close> call of the second provider fails after that of the first has
  succeeded, the caller receives the error that names the second provider, the order row
  stays in status \<^verbatim>\<open>pending\<close>, and the row holds no draft order ids at all: the id of the
  first provider's draft was only in the local dictionary, which is written to the row
  after the payment session exists. Both gateway calls have been issued.
\<close>

theorem partial_draft_failure:
  assumes "resolveItems productStore (cp_items params) [] 0 =
             Inr ([(providerA, itemsA), (providerB, itemsB)], subtotal)"
    and "providerA \<noteq> ''manual''" and "providerB \<noteq> ''manual''"
    and "truthy (cp_selectedRates params providerA)"
    and "truthy (cp_selectedRates params providerB)"
    and "getProvider runtime providerA = Some gatewayA"
    and "getProvider runtime providerB = Some gatewayB"
    and "orderId = w_uuids w (w_uuidCount w)"
    and "orderId \<notin> or_id ` set (w_orders w)"
    and "createOrder (fp_client gatewayA) (draftRequest orderId (cp_address params) itemsA)
           = Inr draftA"
    and "createOrder (fp_client gatewayB) (draftRequest orderId (cp_address params) itemsB)
           = Inl message"
  shows "fst (createCheckout productStore runtime params w) = Inl (DraftOrderFailed providerB message) \<and>
         (\<exists>order. findOrderById (snd (createCheckout productStore runtime params w)) orderId
                    = Some order \<and>
                  ow_status order = pending \<and> ow_draftOrderIds order = None) \<and>
         w_calls (snd (createCheckout productStore runtime params w)) =
           w_calls w @
             [CreateOrderCall providerA (draftRequest orderId (cp_address params) itemsA),
              CreateOrderCall providerB (draftRequest orderId (cp_address params) itemsB)]"
proof -
  from assms(8,9) have fresh: "w_uuids w (w_uuidCount w) \<notin> or_id ` set (w_orders w)" by simp
  define input where "input = \<lparr>coin_userId = cp_userId params,
      coin_items = map toOrderItemInput
         (concat (map snd [(providerA, itemsA), (providerB, itemsB)])),
      coin_totalAmount = subtotal + cp_shippingCost params, coin_currency = ''USD''\<rparr>"
  have run: "createCheckout productStore runtime params w =
      (Inl (DraftOrderFailed providerB message),
       w\<lparr>w_uuidCount := Suc (w_uuidCount w),
          w_orders := w_orders w @ [newOrderRow input w],
          w_calls := w_calls w @
             [CreateOrderCall providerA (draftRequest orderId (cp_address params) itemsA),
              CreateOrderCall providerB (draftRequest orderId (cp_address params) itemsB)]\<rparr>)"
    unfolding createCheckout_after_create [OF assms(1) fresh] input_def
    using assms(2-7,10,11) by (simp add: assms(8) [symmetric] Let_def)
  have "findOrderById (snd (createCheckout productStore runtime params w)) orderId
      = Some (rowToOrder (newOrderRow input w))"
    unfolding run using find_new_row [OF fresh, of input]
    by (simp add: findOrderById_def assms(8))
  moreover have "ow_status (rowToOrder (newOrderRow input w)) = pending"
    "ow_draftOrderIds (rowToOrder (newOrderRow input w)) = None"
    by (simp_all add: newOrderRow_def)
  ultimately show ?thesis
    unfolding run by simp
qed


theorem partial_draft_failure_witness:
  "resolveItems demo_catalog [cartItem ''shirt-1'' 1, cartItem ''poster-1'' 1] [] 0 =
     Inr ([(''printful'', [itemGroup shirt (cartItem ''shirt-1'' 1)]),
           (''gelato'', [itemGroup poster (cartItem ''poster-1'' 1)])], 40)
   \<and> createOrder printful_two_rates
         (draftRequest ''order-1'' demo_address [itemGroup shirt (cartItem ''shirt-1'' 1)])
       = Inr ''pf-draft-1''
   \<and> createOrder gelato_no_drafts
         (draftRequest ''order-1'' demo_address [itemGroup poster (cartItem ''poster-1'' 1)])
       = Inl ''boom''
   \<and> fst (createCheckout demo_catalog demo_runtime
            (checkoutParams [cartItem ''shirt-1'' 1, cartItem ''poster-1'' 1]
               [(''printful'', ''r1''), (''gelato'', ''r1'')] 10) world0)
       = Inl (DraftOrderFailed ''gelato'' ''boom'')
   \<and> (\<exists>order. findOrderById
                  (snd (createCheckout demo_catalog demo_runtime
                          (checkoutParams [cartItem ''shirt-1'' 1, cartItem ''poster-1'' 1]
                             [(''printful'', ''r1''), (''gelato'', ''r1'')] 10) world0))
                  ''order-1'' = Some order \<and>
                ow_status order = pending \<and> ow_draftOrderIds order = None)"
proof -
  let ?params = "checkoutParams [cartItem ''shirt-1'' 1, cartItem ''poster-1'' 1]
               [(''printful'', ''r1''), (''gelato'', ''r1'')] 10"
  have res: "resolveItems demo_catalog (cp_items ?params) [] 0 =
     Inr ([(''printful'', [itemGroup shirt (cartItem ''shirt-1'' 1)]),
           (''gelato'', [itemGroup poster (cartItem ''poster-1'' 1)])], 40)"
    using two_provider_buckets by (simp add: checkoutParams_def)
  have names: "''printful'' \<noteq> ''manual''" "''gelato'' \<noteq> ''manual''" by simp_all
  have rates: "truthy (cp_selectedRates ?params ''printful'')"
    "truthy (cp_selectedRates ?params ''gelato'')"
    by (simp_all add: checkoutParams_def truthy_def)
  have ident: "''order-1'' = w_uuids world0 (w_uuidCount world0)"
    "''order-1'' \<notin> or_id ` set (w_orders world0)"
    by (simp_all add: world0_def)
  have a: "createOrder (fp_client \<lparr>fp_name = ''printful'', fp_client = printful_two_rates\<rparr>)
         (draftRequest ''order-1'' (cp_address ?params) [itemGroup shirt (cartItem ''shirt-1'' 1)])
       = Inr ''pf-draft-1''"
    by (simp add: printful_two_rates_def clientWith_def)
  have b: "createOrder (fp_client \<lparr>fp_name = ''gelato'', fp_client = gelato_no_drafts\<rparr>)
         (draftRequest ''order-1'' (cp_address ?params) [itemGroup poster (cartItem ''poster-1'' 1)])
       = Inl ''boom''"
    by (simp add: gelato_no_drafts_def clientWith_def)
  note inst = partial_draft_failure [OF res names rates demo_gateways ident a b]
  have addr: "cp_address ?params = demo_address" by (simp add: checkoutParams_def)
  from inst a b two_provider_buckets show ?thesis
    by (simp add: addr)
qed


text \<open>
  C1 as stated fails: printful has created its draft, gelato throws, and the persisted
  order has no \<^verbatim>\<open>draftOrderIds\<close> (not the printful entry).
\<close>

theorem partial_draft_failure_counterexample:
  "fst (createCheckout demo_catalog demo_runtime
          (checkoutParams [cartItem ''shirt-1'' 1, cartItem ''poster-1'' 1]
             [(''printful'', ''r1''), (''gelato'', ''r1'')] 10) world0)
     = Inl (DraftOrderFailed ''gelato'' ''boom'')
   \<and> createOrder printful_two_rates
         (draftRequest ''order-1'' demo_address [itemGroup shirt (cartItem ''shirt-1'' 1)])
       = Inr ''pf-draft-1''
   \<and> map_option ow_draftOrderIds
         (findOrderById
            (snd (createCheckout demo_catalog demo_runtime
                    (checkoutParams [cartItem ''shirt-1'' 1, cartItem ''poster-1'' 1]
                       [(''printful'', ''r1''), (''gelato'', ''r1'')] 10) world0))
            ''order-1'')
       = Some None
   \<and> map_option ow_status
         (findOrderById
            (snd (createCheckout demo_catalog demo_runtime
                    (checkoutParams [cartItem ''shirt-1'' 1, cartItem ''poster-1'' 1]
                       [(''printful'', ''r1''), (''gelato'', ''r1'')] 10) world0))
            ''order-1'')
       = Some pending"
  by (simp add: run_defs)


text \<open>
  C7, as the code has it. \<^verbatim>\<open>createCheckout\<close> fails whenever some provider bucket of the
  cart, the \<^verbatim>\<open>manual\<close> bucket included, has no non-empty \<^verbatim>\<open>selectedRates\<close> entry; a cart
  whose only bucket is \<^verbatim>\<open>manual\<close> and that has no such entry fails with
  "No shipping rate selected for provider: manual" once its order has been created.
\<close>

theorem missing_rate_fails_checkout:
  assumes "resolveItems productStore (cp_items params) [] 0 = Inr (itemsByProvider, subtotal)"
    and "(providerName, providerItems) \<in> set itemsByProvider"
    and "\<not> truthy (cp_selectedRates params providerName)"
  shows "isl (fst (createCheckout productStore runtime params w)) \<and>
         (itemsByProvider = [(''manual'', providerItems)] \<and>
          w_uuids w (w_uuidCount w) \<notin> or_id ` set (w_orders w) \<longrightarrow>
            fst (createCheckout productStore runtime params w) = Inl (NoRateSelected ''manual''))"
proof -
  have loop: "isl (fst (createDrafts runtime address rates orderId bs d w0))"
    if "(providerName, providerItems) \<in> set bs" "\<not> truthy (rates providerName)"
    for address rates orderId bs d w0
    using that
  proof (induction bs arbitrary: d w0)
    case Nil
    then show ?case by simp
  next
    case (Cons b bs)
    obtain name groups where b: "b = (name, groups)" by (cases b)
    show ?case
    proof (cases "b = (providerName, providerItems)")
      case True
      with Cons.prems(2) show ?thesis by simp
    next
      case False
      with Cons.prems have "(providerName, providerItems) \<in> set bs" by simp
      from Cons.IH [OF this Cons.prems(2)] show ?thesis
        unfolding b by (simp add: Let_def split: option.splits sum.splits)
    qed
  qed
  have fails: "isl (fst (createCheckout productStore runtime params w))"
  proof (cases "orderStore_create \<lparr>coin_userId = cp_userId params,
      coin_items = map toOrderItemInput (concat (map snd itemsByProvider)),
      coin_totalAmount = subtotal + cp_shippingCost params, coin_currency = ''USD''\<rparr> w")
    case (Pair r w1)
    show ?thesis
    proof (cases r)
      case (Inl e)
      with Pair show ?thesis
        unfolding createCheckout_def assms(1) by (simp add: Let_def)
    next
      case (Inr order)
      have "isl (fst (createDrafts runtime (cp_address params) (cp_selectedRates params)
          (ow_id order) itemsByProvider [] w1))"
        by (rule loop) (rule assms(2), rule assms(3))
      then show ?thesis
        unfolding createCheckout_def assms(1) using Pair Inr
        by (auto simp: Let_def split: prod.splits sum.splits)
    qed
  qed
  have manual: "fst (createCheckout productStore runtime params w) = Inl (NoRateSelected ''manual'')"
    if only: "itemsByProvider = [(''manual'', providerItems)]"
      and fresh: "w_uuids w (w_uuidCount w) \<notin> or_id ` set (w_orders w)"
  proof -
    from only assms(2) have "providerName = ''manual''" by simp
    with assms(3) show ?thesis
      unfolding createCheckout_after_create [OF assms(1) fresh] only by simp
  qed
  from fails manual show ?thesis by blast
qed

theorem missing_rate_fails_checkout_witness:
  "resolveItems demo_catalog [cartItem ''manual-1'' 2] [] 0 =
     Inr ([(''manual'', [itemGroup mug (cartItem ''manual-1'' 2)])], 20)
   \<and> cp_selectedRates (checkoutParams [cartItem ''manual-1'' 2] [(''manual'', '''')] 0) ''manual''
       = Some ''''
   \<and> \<not> truthy (Some '''')
   \<and> w_uuids world0 (w_uuidCount world0) \<notin> or_id ` set (w_orders world0)
   \<and> isl (fst (createCheckout demo_catalog demo_runtime
                 (checkoutParams [cartItem ''manual-1'' 2] [(''manual'', '''')] 0) world0))
   \<and> fst (createCheckout demo_catalog demo_runtime
            (checkoutParams [cartItem ''manual-1'' 2] [(''manual'', '''')] 0) world0)
       = Inl (NoRateSelected ''manual'')"
proof -
  let ?params = "checkoutParams [cartItem ''manual-1'' 2] [(''manual'', '''')] 0"
  have res: "resolveItems demo_catalog (cp_items ?params) [] 0 =
     Inr ([(''manual'', [itemGroup mug (cartItem ''manual-1'' 2)])], 20)"
    using mug_buckets [of 2] by (simp add: checkoutParams_def)
  have mem: "(''manual'', [itemGroup mug (cartItem ''manual-1'' 2)])
      \<in> set [(''manual'', [itemGroup mug (cartItem ''manual-1'' 2)])]"
    by simp
  have entry: "cp_selectedRates ?params ''manual'' = Some ''''"
    by (simp add: checkoutParams_def)
  have falsy: "\<not> truthy (Some '''')" by (simp add: truthy_def)
  from falsy entry have norate: "\<not> truthy (cp_selectedRates ?params ''manual'')" by simp
  have fresh: "w_uuids world0 (w_uuidCount world0) \<notin> or_id ` set (w_orders world0)"
    by (simp add: world0_def)
  note inst = missing_rate_fails_checkout [OF res mem norate, of demo_runtime world0]
  from inst fresh entry falsy mug_buckets [of 2] show ?thesis
    by simp
qed


text \<open>
  C7 as stated fails: the only bucket of the cart is \<^verbatim>\<open>manual\<close>, \<^verbatim>\<open>selectedRates\<close> has no
  \<^verbatim>\<open>manual\<close> entry, and the checkout fails.
\<close>

theorem manual_without_rate_counterexample:
  "resolveItems demo_catalog [cartItem ''manual-1'' 2] [] 0 =
     Inr ([(''manual'', [itemGroup mug (cartItem ''manual-1'' 2)])], 20)
   \<and> cp_selectedRates (checkoutParams [cartItem ''manual-1'' 2] [] 0) ''manual'' = None
   \<and> fst (createCheckout demo_catalog demo_runtime
            (checkoutParams [cartItem ''manual-1'' 2] [] 0) world0)
       = Inl (NoRateSelected ''manual'')"
  by (simp add: run_defs)







text \<open>
  C10, as the code has it. In \<^verbatim>\<open>getQuote\<close> and in \<^verbatim>\<open>createCheckout\<close>, a cart item whose
  \<^verbatim>\<open>variantId\<close> is a non-empty string that is the id of no variant of its product is not
  rejected: its group is in the bucket of its provider with the base price of the product as
  unit price, with no variant id and no fulfillment configuration; every item of the cart is
  processed, and neither operation fails with "Product not found" when all products of the
  cart resolve.
\<close>

theorem unmatched_variant_falls_back:
  assumes "item \<in> set items"
    and "productStore (qi_productId item) = Some product"
    and "qi_variantId item = Some variantId" and "variantId \<noteq> []"
    and "\<forall>v\<in>set (p_variants product). pv_id v \<noteq> variantId"
    and "\<forall>other\<in>set items. productStore (qi_productId other) \<noteq> None"
  shows "(\<exists>itemsByProvider subtotal.
            resolveItems productStore items [] 0 = Inr (itemsByProvider, subtotal) \<and>
            (\<Sum>b\<leftarrow>itemsByProvider. length (snd b)) = length items \<and>
            (\<exists>providerItems g.
               (providerOf product, providerItems) \<in> set itemsByProvider \<and>
               g \<in> set providerItems \<and> pig_item g = item \<and>
               pig_price g = p_price product \<and> pig_variantId g = None \<and>
               pig_fulfillmentConfig g = None)) \<and>
         (\<forall>ident. fst (getQuote productStore runtime items address)
                    \<noteq> Inl (ProductNotFound ident)) \<and>
         (cp_items params = items \<longrightarrow>
            (\<forall>ident. fst (createCheckout productStore runtime params w)
                       \<noteq> Inl (ProductNotFound ident)))"
proof -
  from assms(6) have "\<not> isl (resolveItems productStore items [] 0)"
    by (simp add: resolveItems_isl)
  then obtain bs sub where res: "resolveItems productStore items [] 0 = Inr (bs, sub)"
    by (cases "resolveItems productStore items [] 0") auto
  have count: "(\<Sum>b\<leftarrow>bs. length (snd b)) = length items"
    using resolveItems_count [OF res] by simp
  from resolveItems_contains [OF res assms(1,2)]
  obtain providerItems where group: "(providerOf product, providerItems) \<in> set bs"
    "itemGroup product item \<in> set providerItems"
    by (auto simp: in_buckets_iff)
  note fallback = itemGroup_unmatched [OF assms(3,4,5)]
  have quote: "fst (getQuote productStore runtime items address) \<noteq> Inl (ProductNotFound ident)"
    for ident
    using getQuote_error [OF res, of runtime address "ProductNotFound ident"]
    by (auto simp: isProductNotFound_def)
  have checkout: "fst (createCheckout productStore runtime params w) \<noteq> Inl (ProductNotFound ident)"
    if "cp_items params = items" for ident
    using createCheckout_error [of productStore params "(bs, sub)" runtime w "ProductNotFound ident"]
      res that
    by (auto simp: isProductNotFound_def)
  from res count group fallback quote checkout show ?thesis by blast
qed


theorem unmatched_variant_falls_back_witness:
  "hoodie_catalog (qi_productId (variantItem ''hoodie-xl'')) = Some hoodie
   \<and> qi_variantId (variantItem ''hoodie-xl'') = Some ''hoodie-xl''
   \<and> map pv_id (p_variants hoodie) = [''hoodie-l'']
   \<and> p_price hoodie = 40
   \<and> resolveItems hoodie_catalog [variantItem ''hoodie-xl''] [] 0 =
       Inr ([(''printful'', [itemGroup hoodie (variantItem ''hoodie-xl'')])], 40)
   \<and> pig_price (itemGroup hoodie (variantItem ''hoodie-xl'')) = 40
   \<and> pig_variantId (itemGroup hoodie (variantItem ''hoodie-xl'')) = None
   \<and> pig_fulfillmentConfig (itemGroup hoodie (variantItem ''hoodie-xl'')) = None"
proof -
  have mem: "variantItem ''hoodie-xl'' \<in> set [variantItem ''hoodie-xl'']" by simp
  have found: "hoodie_catalog (qi_productId (variantItem ''hoodie-xl'')) = Some hoodie"
    by (simp add: variant_defs)
  have vid: "qi_variantId (variantItem ''hoodie-xl'') = Some ''hoodie-xl''"
    "''hoodie-xl'' \<noteq> []"
    by (simp_all add: variant_defs)
  have nomatch: "\<forall>v\<in>set (p_variants hoodie). pv_id v \<noteq> ''hoodie-xl''"
    by (simp add: hoodie_def)
  have all: "\<forall>other\<in>set [variantItem ''hoodie-xl''].
      hoodie_catalog (qi_productId other) \<noteq> None"
    using found by simp
  note inst = unmatched_variant_falls_back [OF mem found vid nomatch all]
  have run: "resolveItems hoodie_catalog [variantItem ''hoodie-xl''] [] 0 =
       Inr ([(''printful'', [itemGroup hoodie (variantItem ''hoodie-xl'')])], 40)"
    by (simp add: variant_defs quote_defs)
  have prov: "providerOf hoodie = ''printful''" by (simp add: hoodie_def providerOf_def)
  from inst [THEN conjunct1] run prov
  have "pig_price (itemGroup hoodie (variantItem ''hoodie-xl'')) = p_price hoodie
      \<and> pig_variantId (itemGroup hoodie (variantItem ''hoodie-xl'')) = None
      \<and> pig_fulfillmentConfig (itemGroup hoodie (variantItem ''hoodie-xl'')) = None"
    by auto
  moreover have "p_price hoodie = 40" "map pv_id (p_variants hoodie) = [''hoodie-l'']"
    by (simp_all add: hoodie_def)
  ultimately show ?thesis using found vid run by simp
qed


text \<open>
  C10 as stated fails: the \<^verbatim>\<open>variantId\<close> of the item is present, the empty string, and is
  the id of no variant of the hoodie (base price 40); the item gets the first variant, its
  price 45 and its fulfillment configuration.
\<close>

theorem empty_variant_id_counterexample:
  "qi_variantId (variantItem []) = Some []
   \<and> find (\<lambda>v. Some (pv_id v) = qi_variantId (variantItem [])) (p_variants hoodie) = None
   \<and> p_price hoodie = 40
   \<and> resolveItems hoodie_catalog [variantItem []] [] 0 =
       Inr ([(''printful'', [itemGroup hoodie (variantItem [])])], 45)
   \<and> pig_price (itemGroup hoodie (variantItem [])) = 45
   \<and> pig_variantId (itemGroup hoodie (variantItem [])) = Some ''hoodie-l''
   \<and> pig_fulfillmentConfig (itemGroup hoodie (variantItem [])) = Some demo_config
   \<and> fst (getQuote hoodie_catalog (createMarketplaceRuntime (Some printful_two_rates) None None)
            [variantItem []] demo_address)
       = Inr \<lparr>q_subtotal = 45, q_shippingCost = 5, q_total = 50, q_currency = ''USD'',
               q_providerBreakdown =
                 [\<lparr>pb_provider = ''printful'', pb_itemCount = 1, pb_subtotal = 45,
                   pb_selectedShipping = toShippingOption ''printful'' rate_r1,
                   pb_availableRates = [toShippingOption ''printful'' rate_r1,
                                        toShippingOption ''printful'' rate_r2]\<rparr>],
               q_estimatedDelivery = Some (3, 7)\<rparr>"
  by (simp add: variant_defs quote_defs demo_defs)


text \<open>
  C4. The cleanup job succeeds on a table with unique order ids and processes the abandoned
  drafts it found. Every processed order was in status \<^verbatim>\<open>draft_created\<close>; afterwards its
  row is \<^verbatim>\<open>cancelled\<close> when it had no recorded draft ids or every provider cancellation
  succeeded, \<^verbatim>\<open>partially_cancelled\<close> when some but not all succeeded, and still
  \<^verbatim>\<open>draft_created\<close> when none succeeded. The three counters count the orders of the three
  outcomes, the unchanged ones under \<^verbatim>\<open>failed\<close>, and the error list has one entry for each
  failed provider cancellation, with the id of its order and the name of its provider.
\<close>

theorem sweep_outcomes:
  assumes "distinct (map or_id (w_orders w))"
  shows "\<exists>result w'.
     cleanupAbandonedDrafts runtime maxAgeHours w = (Inr result, w') \<and>
     cr_totalProcessed result = length (findAbandonedDrafts maxAgeHours w) \<and>
     cr_cancelled result =
       length (filter (\<lambda>order. sweepOutcome_spec runtime order = Some cancelled)
                 (findAbandonedDrafts maxAgeHours w)) \<and>
     cr_partiallyCancelled result =
       length (filter (\<lambda>order. sweepOutcome_spec runtime order = Some partially_cancelled)
                 (findAbandonedDrafts maxAgeHours w)) \<and>
     cr_failed result =
       length (filter (\<lambda>order. sweepOutcome_spec runtime order = None)
                 (findAbandonedDrafts maxAgeHours w)) \<and>
     map errorKey (cr_errors result) =
       concat (map (failedCancellations runtime) (findAbandonedDrafts maxAgeHours w)) \<and>
     (\<forall>order\<in>set (findAbandonedDrafts maxAgeHours w).
        ow_status order = draft_created \<and>
        map_option ow_status (findOrderById w' (ow_id order)) =
          Some (case sweepOutcome_spec runtime order of
                  Some status \<Rightarrow> status | None \<Rightarrow> draft_created))"
proof -
  define os where "os = findAbandonedDrafts maxAgeHours w"
  from abandoned_rows [of maxAgeHours w] assms obtain rows where rows:
    "os = map rowToOrder rows"
    "set rows \<subseteq> {r \<in> set (w_orders w). or_status r = draft_created}"
    "distinct (map or_id rows)"
    unfolding os_def by blast
  have ids: "map ow_id os = map or_id rows"
    by (simp add: rows(1) rowToOrder_def)
  have dist: "distinct (map ow_id os)" by (simp only: ids rows(3))
  have from_row: "\<exists>r\<in>set (w_orders w). order = rowToOrder r \<and> or_status r = draft_created"
    if "order \<in> set os" for order
    using that rows(1,2) by auto
  have present: "\<forall>order\<in>set os. ow_id order \<in> or_id ` set (w_orders w)"
  proof
    fix order assume "order \<in> set os"
    from from_row [OF this] obtain r where "r \<in> set (w_orders w)" "order = rowToOrder r"
      by blast
    then show "ow_id order \<in> or_id ` set (w_orders w)" by simp
  qed
  have before: "ow_status order = draft_created \<and> rowStatus w (ow_id order) = Some draft_created"
    if "order \<in> set os" for order
  proof -
    from from_row [OF that] obtain r where r: "r \<in> set (w_orders w)" "order = rowToOrder r"
      "or_status r = draft_created" by blast
    from find_distinct [OF assms r(1)] have "find (\<lambda>y. or_id y = or_id r) (w_orders w) = Some r" .
    with r show ?thesis by (simp add: rowStatus_def rowToOrder_def)
  qed
  show ?thesis
  proof (cases "os = []")
    case True
    then show ?thesis
      unfolding os_def [symmetric]
      by (simp add: cleanupAbandonedDrafts_def Let_def os_def [symmetric])
  next
    case False
    define acc0 where "acc0 =
      \<lparr>sw_cancelled = 0, sw_partiallyCancelled = 0, sw_failed = 0, sw_errors = []\<rparr>"
    from sweepOrders_all [OF dist present, of runtime acc0]
    obtain acc' w' where sw:
      "sweepOrders runtime os acc0 w = (Inr acc', w')"
      "sw_cancelled acc' =
         sw_cancelled acc0 +
           length (filter (\<lambda>order. sweepOutcome_spec runtime order = Some cancelled) os)"
      "sw_partiallyCancelled acc' =
         sw_partiallyCancelled acc0 +
           length (filter (\<lambda>order. sweepOutcome_spec runtime order = Some partially_cancelled) os)"
      "sw_failed acc' =
         sw_failed acc0 + length (filter (\<lambda>order. sweepOutcome_spec runtime order = None) os)"
      "map errorKey (sw_errors acc') =
         map errorKey (sw_errors acc0) @ concat (map (failedCancellations runtime) os)"
      "\<forall>j. rowStatus w' j =
        (case find (\<lambda>order. ow_id order = j) os of
           None \<Rightarrow> rowStatus w j
         | Some order \<Rightarrow> map_option (statusAfter runtime order) (rowStatus w j))"
      by blast
    define result where "result = \<lparr>cr_totalProcessed = length os,
                   cr_cancelled = sw_cancelled acc',
                   cr_partiallyCancelled = sw_partiallyCancelled acc',
                   cr_failed = sw_failed acc',
                   cr_errors = sw_errors acc'\<rparr>"
    have run: "cleanupAbandonedDrafts runtime maxAgeHours w = (Inr result, w')"
      using False sw(1)
      by (simp add: cleanupAbandonedDrafts_def Let_def os_def [symmetric] acc0_def [symmetric]
          result_def)
    have after: "ow_status order = draft_created \<and>
        map_option ow_status (findOrderById w' (ow_id order)) =
          Some (case sweepOutcome_spec runtime order of
                  Some status \<Rightarrow> status | None \<Rightarrow> draft_created)"
      if "order \<in> set os" for order
    proof -
      from find_distinct [OF dist that]
      have "find (\<lambda>y. ow_id y = ow_id order) os = Some order" .
      with sw(6) before [OF that]
      have "rowStatus w' (ow_id order) = Some (statusAfter runtime order draft_created)"
        by simp
      with before [OF that] show ?thesis
        by (simp add: status_findOrderById statusAfter_def)
    qed
    show ?thesis
      unfolding os_def [symmetric]
      apply (rule exI [of _ result], rule exI [of _ w'])
      using run sw(2-5) after
      by (simp add: result_def acc0_def)
  qed
qed


theorem sweep_outcomes_witness:
  "distinct (map or_id (w_orders sweep_world))
   \<and> fst (cleanupAbandonedDrafts sweep_runtime 24 sweep_world) =
       Inr \<lparr>cr_totalProcessed = 4, cr_cancelled = 2, cr_partiallyCancelled = 1, cr_failed = 1,
             cr_errors =
               [\<lparr>ce_orderId = ''o3'', ce_provider = ''gelato'', ce_error = ''already shipped''\<rparr>,
                \<lparr>ce_orderId = ''o2'', ce_provider = ''gelato'', ce_error = ''already shipped''\<rparr>]\<rparr>
   \<and> map (\<lambda>r. (or_id r, or_status r))
         (w_orders (snd (cleanupAbandonedDrafts sweep_runtime 24 sweep_world))) =
       [(''o1'', cancelled), (''o2'', partially_cancelled), (''o3'', draft_created),
        (''o4'', cancelled), (''o5'', draft_created)]
   \<and> length (findAbandonedDrafts 24 sweep_world) = 4
   \<and> length (filter (\<lambda>order. sweepOutcome_spec sweep_runtime order = Some cancelled)
               (findAbandonedDrafts 24 sweep_world)) = 2
   \<and> length (filter (\<lambda>order. sweepOutcome_spec sweep_runtime order = Some partially_cancelled)
               (findAbandonedDrafts 24 sweep_world)) = 1
   \<and> length (filter (\<lambda>order. sweepOutcome_spec sweep_runtime order = None)
               (findAbandonedDrafts 24 sweep_world)) = 1
   \<and> concat (map (failedCancellations sweep_runtime) (findAbandonedDrafts 24 sweep_world)) =
       [(''o3'', ''gelato''), (''o2'', ''gelato'')]"
proof -
  have dist: "distinct (map or_id (w_orders sweep_world))"
    by (simp add: sweep_world_def draftRow_def)
  from sweep_outcomes [OF dist, of sweep_runtime 24]
  obtain result w' where r:
    "cleanupAbandonedDrafts sweep_runtime 24 sweep_world = (Inr result, w')"
    "cr_totalProcessed result = length (findAbandonedDrafts 24 sweep_world)"
    "cr_cancelled result =
       length (filter (\<lambda>order. sweepOutcome_spec sweep_runtime order = Some cancelled)
                 (findAbandonedDrafts 24 sweep_world))"
    "cr_partiallyCancelled result =
       length (filter (\<lambda>order. sweepOutcome_spec sweep_runtime order = Some partially_cancelled)
                 (findAbandonedDrafts 24 sweep_world))"
    "cr_failed result =
       length (filter (\<lambda>order. sweepOutcome_spec sweep_runtime order = None)
                 (findAbandonedDrafts 24 sweep_world))"
    "map errorKey (cr_errors result) =
       concat (map (failedCancellations sweep_runtime) (findAbandonedDrafts 24 sweep_world))"
    by blast
  from r(1) sweep_run_result have result: "result =
     \<lparr>cr_totalProcessed = 4, cr_cancelled = 2, cr_partiallyCancelled = 1, cr_failed = 1,
           cr_errors =
             [\<lparr>ce_orderId = ''o3'', ce_provider = ''gelato'', ce_error = ''already shipped''\<rparr>,
              \<lparr>ce_orderId = ''o2'', ce_provider = ''gelato'', ce_error = ''already shipped''\<rparr>]\<rparr>"
    by simp
  from r(2-6) have counts:
    "length (findAbandonedDrafts 24 sweep_world) = 4"
    "length (filter (\<lambda>order. sweepOutcome_spec sweep_runtime order = Some cancelled)
               (findAbandonedDrafts 24 sweep_world)) = 2"
    "length (filter (\<lambda>order. sweepOutcome_spec sweep_runtime order = Some partially_cancelled)
               (findAbandonedDrafts 24 sweep_world)) = 1"
    "length (filter (\<lambda>order. sweepOutcome_spec sweep_runtime order = None)
               (findAbandonedDrafts 24 sweep_world)) = 1"
    "concat (map (failedCancellations sweep_runtime) (findAbandonedDrafts 24 sweep_world)) =
       [(''o3'', ''gelato''), (''o2'', ''gelato'')]"
    unfolding result by (simp_all add: errorKey_def)
  from dist sweep_run_result sweep_run_statuses counts show ?thesis by blast
qed

end
